theory Spec2Isabelle
  imports Main
begin

section \<open>Data model (models.py)\<close>

text \<open>
  The two block types of \<^verbatim>\<open>class BlockType(str, Enum)\<close>.
\<close>

datatype BlockType = PREVENT_TRIGGER | FULL_BLOCK

text \<open>
  \<^verbatim>\<open>class BlockRecord(BaseModel)\<close>: the fields in the order of the source.
  Python's unbounded \<^verbatim>\<open>int\<close> is \<open>int\<close>, \<^verbatim>\<open>Optional[int]\<close> is \<open>int option\<close>.
\<close>

record BlockRecord =
  user_id :: string
  username :: string
  block_type :: BlockType
  reason :: string
  start_time :: int
  expire_time :: "int option"
  is_permanent :: bool

text \<open>
  The exceptions the modelled code can raise: \<^verbatim>\<open>del d[k]\<close> on a missing key,
  \<^verbatim>\<open>datetime.fromtimestamp\<close> out of range, a failing \<^verbatim>\<open>user.save()\<close>, and a failing
  \<^verbatim>\<open>assert\<close>.
\<close>

datatype exn = KeyError | OverflowError | DBError | AssertionError

subsection \<open>Python dictionaries\<close>

text \<open>
  A Python \<^verbatim>\<open>dict\<close> keeps insertion order, and the prompt summary depends on that order,
  so a dictionary is an association list. A dictionary never holds a key twice:
  \<open>dict_inv\<close> is that invariant of the type, which every operation below keeps.
\<close>

type_synonym 'v dict = "(string \<times> 'v) list"

definition dict_inv :: "'v dict \<Rightarrow> bool" where
  "dict_inv d = distinct (map fst d)"

text \<open>\<^verbatim>\<open>k in d\<close>\<close>

definition dict_contains :: "string \<Rightarrow> 'v dict \<Rightarrow> bool" where
  "dict_contains k d = (k \<in> fst ` set d)"

text \<open>\<^verbatim>\<open>d.get(k)\<close>\<close>

definition dict_get :: "'v dict \<Rightarrow> string \<Rightarrow> 'v option" where
  "dict_get d k = map_of d k"

text \<open>
  \<^verbatim>\<open>d[k] = v\<close>: an existing key keeps its position and gets the new value, a new key goes
  to the end.
\<close>

fun dict_set :: "string \<Rightarrow> 'v \<Rightarrow> 'v dict \<Rightarrow> 'v dict" where
  "dict_set k v [] = [(k, v)]"
| "dict_set k v ((k', v') # d) =
     (if k' = k then (k, v) # d else (k', v') # dict_set k v d)"

text \<open>The dictionary without the key \<open>k\<close>: what \<^verbatim>\<open>del d[k]\<close> leaves when \<open>k\<close> is present.\<close>

definition dict_remove :: "string \<Rightarrow> 'v dict \<Rightarrow> 'v dict" where
  "dict_remove k d = filter (\<lambda>(k', v). k' \<noteq> k) d"

text \<open>\<^verbatim>\<open>del d[k]\<close>: raises \<^verbatim>\<open>KeyError\<close> when the key is missing.\<close>

definition dict_del :: "string \<Rightarrow> 'v dict \<Rightarrow> exn + 'v dict" where
  "dict_del k d = (if dict_contains k d then Inr (dict_remove k d) else Inl KeyError)"

text \<open>
  Python's truth value of an \<^verbatim>\<open>Optional[int]\<close>: \<^verbatim>\<open>None\<close> and \<^verbatim>\<open>0\<close> are both false.
\<close>

definition truthy :: "int option \<Rightarrow> bool" where
  "truthy e = (case e of None \<Rightarrow> False | Some n \<Rightarrow> n \<noteq> 0)"

subsection \<open>BlockData\<close>

record BlockData =
  blocks :: "BlockRecord dict"

text \<open>\<^verbatim>\<open>BlockData()\<close>: \<^verbatim>\<open>default_factory=dict\<close>.\<close>

definition BlockData_empty :: BlockData where
  "BlockData_empty = \<lparr>blocks = []\<rparr>"

text \<open>\<^verbatim>\<open>self.blocks[record.user_id] = record\<close>\<close>

definition add_block :: "BlockData \<Rightarrow> BlockRecord \<Rightarrow> BlockData" where
  "add_block self record = self\<lparr>blocks := dict_set (user_id record) record (blocks self)\<rparr>"

text \<open>
  \<^verbatim>\<open>if user_id in self.blocks: del self.blocks[user_id]; return True\<close>, else \<^verbatim>\<open>False\<close>.
  The \<^verbatim>\<open>del\<close> stands under the membership test, so it cannot raise
  (lemma \<open>dict_del_present\<close> below).
\<close>

definition remove_block :: "BlockData \<Rightarrow> string \<Rightarrow> bool \<times> BlockData" where
  "remove_block self uid =
     (if dict_contains uid (blocks self)
      then (True, self\<lparr>blocks := dict_remove uid (blocks self)\<rparr>)
      else (False, self))"

definition get_block :: "BlockData \<Rightarrow> string \<Rightarrow> BlockRecord option" where
  "get_block self uid = dict_get (blocks self) uid"

definition is_blocked :: "BlockData \<Rightarrow> string \<Rightarrow> bool" where
  "is_blocked self uid = dict_contains uid (blocks self)"

text \<open>
  The test of \<^verbatim>\<open>get_active_blocks\<close>:
  \<^verbatim>\<open>record.is_permanent or (record.expire_time and record.expire_time > current_time)\<close>.
  The middle operand is a truth-value test, so an \<^verbatim>\<open>expire_time\<close> of 0 fails it.
\<close>

definition active_test :: "int \<Rightarrow> BlockRecord \<Rightarrow> bool" where
  "active_test current_time record =
     (is_permanent record \<or>
      (truthy (expire_time record) \<and>
       (case expire_time record of None \<Rightarrow> False | Some e \<Rightarrow> e > current_time)))"

text \<open>
  \<^verbatim>\<open>get_active_blocks\<close>: the loop over \<^verbatim>\<open>self.blocks.items()\<close> that stores every record
  passing the test into the fresh dictionary \<^verbatim>\<open>active\<close>.
\<close>

definition get_active_blocks :: "BlockData \<Rightarrow> int \<Rightarrow> BlockRecord dict" where
  "get_active_blocks self current_time =
     foldl (\<lambda>active (uid, record).
              if active_test current_time record then dict_set uid record active else active)
       [] (blocks self)"

text \<open>
  The test of \<^verbatim>\<open>cleanup_expired\<close>:
  \<^verbatim>\<open>not record.is_permanent and record.expire_time and record.expire_time <= current_time\<close>.
\<close>

definition expired_test :: "int \<Rightarrow> BlockRecord \<Rightarrow> bool" where
  "expired_test current_time record =
     (\<not> is_permanent record \<and> truthy (expire_time record) \<and>
      (case expire_time record of None \<Rightarrow> False | Some e \<Rightarrow> e \<le> current_time))"

text \<open>The second loop of \<^verbatim>\<open>cleanup_expired\<close>: \<^verbatim>\<open>del self.blocks[user_id]\<close> for each collected key.\<close>

fun del_all :: "string list \<Rightarrow> 'v dict \<Rightarrow> exn + 'v dict" where
  "del_all [] d = Inr d"
| "del_all (k # ks) d =
     (case dict_del k d of Inl e \<Rightarrow> Inl e | Inr d' \<Rightarrow> del_all ks d')"

text \<open>
  \<^verbatim>\<open>cleanup_expired\<close>: collect the keys of the records passing the test, delete them, return
  how many keys were collected (and the collection as the deletions left it).
\<close>

definition cleanup_expired :: "BlockData \<Rightarrow> int \<Rightarrow> exn + (int \<times> BlockData)" where
  "cleanup_expired self current_time =
     (let expired_users =
            map fst (filter (\<lambda>(uid, record). expired_test current_time record) (blocks self))
      in case del_all expired_users (blocks self) of
           Inl e \<Rightarrow> Inl e
         | Inr d \<Rightarrow> Inr (int (length expired_users), self\<lparr>blocks := d\<rparr>))"

section \<open>Configuration (plugin.py)\<close>

record BlockConfig =
  ENABLE_PREVENT_TRIGGER :: bool
  ENABLE_FULL_BLOCK :: bool
  MAX_BLOCK_SECONDS :: int
  DEFAULT_BLOCK_SECONDS :: int
  ALLOW_PERMANENT_BLOCK :: bool
  SHOW_BLOCKED_USERS_IN_PROMPT :: bool
  MAX_PROMPT_DISPLAY_COUNT :: int

text \<open>The \<^verbatim>\<open>ge\<close>/\<^verbatim>\<open>le\<close> bounds that the \<^verbatim>\<open>Field\<close> declarations of \<^verbatim>\<open>BlockConfig\<close> validate.\<close>

definition valid_config :: "BlockConfig \<Rightarrow> bool" where
  "valid_config config =
     (0 \<le> MAX_BLOCK_SECONDS config \<and> MAX_BLOCK_SECONDS config \<le> 2592000 \<and>
      60 \<le> DEFAULT_BLOCK_SECONDS config \<and> DEFAULT_BLOCK_SECONDS config \<le> 604800 \<and>
      1 \<le> MAX_PROMPT_DISPLAY_COUNT config \<and> MAX_PROMPT_DISPLAY_COUNT config \<le> 20)"

text \<open>The defaults of the \<^verbatim>\<open>Field\<close> declarations.\<close>

definition default_config :: BlockConfig where
  "default_config =
     \<lparr>ENABLE_PREVENT_TRIGGER = True, ENABLE_FULL_BLOCK = True, MAX_BLOCK_SECONDS = 259200,
      DEFAULT_BLOCK_SECONDS = 86400, ALLOW_PERMANENT_BLOCK = False,
      SHOW_BLOCKED_USERS_IN_PROMPT = True, MAX_PROMPT_DISPLAY_COUNT = 5\<rparr>"

section \<open>The host: clock, user directory, store\<close>

text \<open>
  The host's user entity (\<^verbatim>\<open>DBUser\<close>), as far as the plugin reads and writes it. The
  display name is \<open>db_username\<close> here (\<open>username\<close> is the field of \<open>BlockRecord\<close>);
  \<open>unique_id\<close> is the host's property, taken as the host gives it. A \<^verbatim>\<open>datetime\<close> is
  represented by the epoch second it denotes.
\<close>

datatype datetime = Datetime int

record DBUser =
  pk :: nat
  adapter_key :: string
  platform_userid :: string
  unique_id :: string
  db_username :: string
  prevent_trigger_until :: "datetime option"
  ban_until :: "datetime option"

text \<open>The calls the plugin makes to the host, in the order made.\<close>

datatype event =
    Get_or_none string string
  | Get_by_union_id string string
  | User_save DBUser
  | Store_get string
  | Store_set string BlockData
  | Logger_info
  | Logger_warning

text \<open>
  The state outside the plugin. \<open>clock\<close> gives the value of the \<open>n\<close>-th call of
  \<^verbatim>\<open>int(time.time())\<close> and \<open>reads\<close> counts the calls made; \<open>users\<close> is the host's user
  table and \<open>db_writable\<close> says whether \<^verbatim>\<open>user.save()\<close> succeeds; \<open>store\<close> maps a chat key
  to the collection whose JSON dump is stored under the key \<^verbatim>\<open>"blocks"\<close>; \<open>trace\<close> is the
  list of host calls made so far.
\<close>

record world =
  users :: "DBUser list"
  db_writable :: bool
  store :: "string \<Rightarrow> BlockData option"
  clock :: "nat \<Rightarrow> int"
  reads :: nat
  trace :: "event list"

definition emit :: "event \<Rightarrow> world \<Rightarrow> world" where
  "emit e w = w\<lparr>trace := trace w @ [e]\<rparr>"

text \<open>\<^verbatim>\<open>int(time.time())\<close>\<close>

definition time_time :: "world \<Rightarrow> int \<times> world" where
  "time_time w = (clock w (reads w), w\<lparr>reads := Suc (reads w)\<rparr>)"

section \<open>Utilities (utils.py)\<close>

text \<open>
  \<^verbatim>\<open>calculate_expire_time\<close>: \<^verbatim>\<open>None\<close> for \<^verbatim>\<open>None\<close>; otherwise the seconds, capped when
  \<^verbatim>\<open>config.MAX_BLOCK_SECONDS > 0\<close>, added to the clock value read then.
\<close>

definition calculate_expire_time ::
  "BlockConfig \<Rightarrow> int option \<Rightarrow> world \<Rightarrow> int option \<times> world" where
  "calculate_expire_time config seconds w =
     (case seconds of
        None \<Rightarrow> (None, w)
      | Some s \<Rightarrow>
          (let s' = (if MAX_BLOCK_SECONDS config > 0 then min s (MAX_BLOCK_SECONDS config) else s);
               (current_time, w') = time_time w
           in (Some (current_time + s'), w')))"

text \<open>
  \<^verbatim>\<open>format_time_remaining\<close>. The text returned is kept as a value that carries the
  numbers the source formats: "permanent", "expired", days and hours, hours and minutes,
  minutes.
\<close>

datatype remaining =
    Text_permanent
  | Text_expired
  | Days_hours int int
  | Hours_minutes int int
  | Minutes int

definition format_time_remaining :: "int option \<Rightarrow> world \<Rightarrow> remaining \<times> world" where
  "format_time_remaining expire w =
     (case expire of
        None \<Rightarrow> (Text_permanent, w)
      | Some e \<Rightarrow>
          (let (current_time, w') = time_time w;
               remaining_seconds = e - current_time
           in if remaining_seconds \<le> 0 then (Text_expired, w')
              else
                (let days = remaining_seconds div 86400;
                     hours = (remaining_seconds mod 86400) div 3600;
                     minutes = (remaining_seconds mod 3600) div 60
                 in if days > 0 then (Days_hours days hours, w')
                    else if hours > 0 then (Hours_minutes hours minutes, w')
                    else (Minutes minutes, w'))))"

text \<open>
  \<^verbatim>\<open>get_block_type_description\<close>: the dictionary lookup has an entry for both block types,
  so the default \<^verbatim>\<open>str(block_type)\<close> is never taken. The two texts are kept as values.
\<close>

datatype description = Desc_prevent_trigger | Desc_full_block

fun get_block_type_description :: "BlockType \<Rightarrow> description" where
  "get_block_type_description PREVENT_TRIGGER = Desc_prevent_trigger"
| "get_block_type_description FULL_BLOCK = Desc_full_block"

subsection \<open>The store\<close>

text \<open>
  \<^verbatim>\<open>get_block_data\<close> and \<^verbatim>\<open>save_block_data\<close>. The store holds the collection itself: the
  JSON text written by \<^verbatim>\<open>model_dump_json\<close> and read back by \<^verbatim>\<open>model_validate_json\<close> is
  not modelled, so a blob that does not parse is outside this model.
\<close>

definition get_block_data :: "string \<Rightarrow> world \<Rightarrow> BlockData \<times> world" where
  "get_block_data ck w =
     (case store w ck of
        Some data \<Rightarrow> (data, emit (Store_get ck) w)
      | None \<Rightarrow> (BlockData_empty, emit (Store_get ck) w))"

definition save_block_data :: "string \<Rightarrow> BlockData \<Rightarrow> world \<Rightarrow> world" where
  "save_block_data ck data w = (emit (Store_set ck data) w)\<lparr>store := (store w)(ck \<mapsto> data)\<rparr>"

subsection \<open>The user directory\<close>

text \<open>
  \<^verbatim>\<open>DBUser.get_or_none(adapter_key=..., platform_userid=...)\<close> and
  \<^verbatim>\<open>DBUser.get_by_union_id(adapter_key, platform_userid)\<close>: the first row of the host's
  table with these two keys.
\<close>

definition get_or_none :: "string \<Rightarrow> string \<Rightarrow> world \<Rightarrow> DBUser option \<times> world" where
  "get_or_none ak pid w =
     (find (\<lambda>u. adapter_key u = ak \<and> platform_userid u = pid) (users w),
      emit (Get_or_none ak pid) w)"

definition get_by_union_id :: "string \<Rightarrow> string \<Rightarrow> world \<Rightarrow> DBUser option \<times> world" where
  "get_by_union_id ak pid w =
     (find (\<lambda>u. adapter_key u = ak \<and> platform_userid u = pid) (users w),
      emit (Get_by_union_id ak pid) w)"

text \<open>
  \<^verbatim>\<open>user.save()\<close>: writes the row with the entity's primary key, or raises when the
  database does not take the write.
\<close>

definition save :: "DBUser \<Rightarrow> world \<Rightarrow> (exn + unit) \<times> world" where
  "save u w =
     (if db_writable w
      then (Inr (), (emit (User_save u) w)\<lparr>users := map (\<lambda>r. if pk r = pk u then u else r) (users w)\<rparr>)
      else (Inl DBError, emit (User_save u) w))"

text \<open>
  \<^verbatim>\<open>unique_id.split(":", 1)\<close> followed by \<^verbatim>\<open>len(parts) != 2\<close>: the text before and after the
  first colon, or nothing when there is no colon.
\<close>

definition split_once :: "string \<Rightarrow> (string \<times> string) option" where
  "split_once s =
     (if CHR '':'' \<in> set s
      then Some (takeWhile (\<lambda>c. c \<noteq> CHR '':'') s, tl (dropWhile (\<lambda>c. c \<noteq> CHR '':'') s))
      else None)"

definition get_user_by_unique_id :: "string \<Rightarrow> world \<Rightarrow> DBUser option \<times> world" where
  "get_user_by_unique_id uid w =
     (case split_once uid of
        None \<Rightarrow> (None, w)
      | Some (ak, pid) \<Rightarrow> get_by_union_id ak pid w)"

text \<open>
  \<^verbatim>\<open>datetime.fromtimestamp\<close>: raises outside the years 1 to 9999. The bounds are those of
  UTC; the host's local time zone moves them by its offset.
\<close>

definition min_timestamp :: int where
  "min_timestamp = - 62135596800"

definition max_timestamp :: int where
  "max_timestamp = 253402300799"

definition fromtimestamp :: "int \<Rightarrow> exn + datetime" where
  "fromtimestamp t =
     (if min_timestamp \<le> t \<and> t \<le> max_timestamp then Inr (Datetime t) else Inl OverflowError)"

subsection \<open>The system effect\<close>

text \<open>
  The conversion at the head of \<^verbatim>\<open>apply_block_to_system\<close>:
  \<^verbatim>\<open>expire_datetime = None; if expire_time: expire_datetime = datetime.fromtimestamp(expire_time)\<close>.
\<close>

definition expire_datetime_of :: "int option \<Rightarrow> exn + datetime option" where
  "expire_datetime_of expire =
     (if truthy expire
      then (case expire of
              None \<Rightarrow> Inr None
            | Some e \<Rightarrow> (case fromtimestamp e of Inl x \<Rightarrow> Inl x | Inr dt \<Rightarrow> Inr (Some dt)))
      else Inr None)"

text \<open>
  \<^verbatim>\<open>apply_block_to_system\<close>: every exception inside the \<^verbatim>\<open>try\<close> gives \<^verbatim>\<open>False\<close>.
\<close>

definition apply_block_to_system ::
  "string \<Rightarrow> BlockType \<Rightarrow> int option \<Rightarrow> world \<Rightarrow> bool \<times> world" where
  "apply_block_to_system uid bt expire w =
     (case get_user_by_unique_id uid w of
        (None, w1) \<Rightarrow> (False, w1)
      | (Some user, w1) \<Rightarrow>
          (case expire_datetime_of expire of
             Inl x \<Rightarrow> (False, w1)
           | Inr expire_datetime \<Rightarrow>
               (let user' = (if bt = PREVENT_TRIGGER
                             then user\<lparr>prevent_trigger_until := expire_datetime\<rparr>
                             else user\<lparr>ban_until := expire_datetime\<rparr>)
                in case save user' w1 of
                     (Inl x, w2) \<Rightarrow> (False, w2)
                   | (Inr u, w2) \<Rightarrow> (True, w2))))"

text \<open>\<^verbatim>\<open>remove_block_from_system\<close>\<close>

definition remove_block_from_system :: "string \<Rightarrow> BlockType \<Rightarrow> world \<Rightarrow> bool \<times> world" where
  "remove_block_from_system uid bt w =
     (case get_user_by_unique_id uid w of
        (None, w1) \<Rightarrow> (False, w1)
      | (Some user, w1) \<Rightarrow>
          (let user' = (if bt = PREVENT_TRIGGER
                        then user\<lparr>prevent_trigger_until := None\<rparr>
                        else user\<lparr>ban_until := None\<rparr>)
           in case save user' w1 of
                (Inl x, w2) \<Rightarrow> (False, w2)
              | (Inr u, w2) \<Rightarrow> (True, w2)))"

section \<open>Handlers (methods.py)\<close>

text \<open>
  What a handler needs of \<^verbatim>\<open>AgentCtx\<close>: the adapter key (\<open>ctx_adapter_key\<close>; the name
  \<open>adapter_key\<close> is the field of \<open>DBUser\<close>) and the chat key.
\<close>

record AgentCtx =
  ctx_adapter_key :: string
  chat_key :: string

text \<open>
  The duration text of a successful block: "permanent", or the hours and minutes the
  source formats.
\<close>

datatype duration_desc =
    Dur_permanent
  | Dur_hours int
  | Dur_hours_minutes int int
  | Dur_minutes int

text \<open>
  The texts the handlers return, as values carrying what the source interpolates:
  feature disabled; user not found (the identifier); already blocked (the display name and
  the description of the existing block type); block failed (the display name); block done
  (the mode, the display name, the duration text, the reason); not blocked; unblock failed;
  unblock done (the display name each). \<open>Raised\<close> is an exception leaving the handler.
\<close>

datatype reply =
    Disabled BlockType
  | User_not_found string
  | Already_blocked string description
  | Block_failed string
  | Block_ok BlockType string duration_desc string
  | Not_blocked string
  | Unblock_failed string
  | Unblock_ok string
  | Raised exn

text \<open>\<^verbatim>\<open>duration_seconds is None or duration_seconds < 0\<close>\<close>

definition absent_or_negative :: "int option \<Rightarrow> bool" where
  "absent_or_negative duration_seconds =
     (case duration_seconds of None \<Rightarrow> True | Some d \<Rightarrow> d < 0)"

text \<open>
  The duration block at the head of both block handlers (lines 48 to 59 of
  \<^verbatim>\<open>block_user_prevent_trigger\<close>, lines 150 to 161 of \<^verbatim>\<open>block_user_full\<close>, the same text):
  it sets \<^verbatim>\<open>is_permanent\<close>, \<^verbatim>\<open>expire_time\<close> and \<^verbatim>\<open>duration_seconds\<close>, returned here in
  that order.
\<close>

definition resolve_duration ::
  "BlockConfig \<Rightarrow> int option \<Rightarrow> world \<Rightarrow> (bool \<times> int option \<times> int option) \<times> world" where
  "resolve_duration config duration_seconds w =
     (if absent_or_negative duration_seconds
      then (if ALLOW_PERMANENT_BLOCK config
            then ((True, None, None), w)
            else (case calculate_expire_time config (Some (DEFAULT_BLOCK_SECONDS config)) w of
                    (expire, w') \<Rightarrow> ((False, expire, Some (DEFAULT_BLOCK_SECONDS config)), w')))
      else (case calculate_expire_time config duration_seconds w of
              (expire, w') \<Rightarrow> ((False, expire, duration_seconds), w')))"

text \<open>
  The duration text at the tail of both block handlers (lines 106 to 118 and 208 to 220,
  the same text), with the \<^verbatim>\<open>assert duration_seconds is not None\<close> of the second branch.
\<close>

definition describe_duration :: "bool \<Rightarrow> int option \<Rightarrow> exn + duration_desc" where
  "describe_duration permanent duration_seconds =
     (if permanent then Inr Dur_permanent
      else (case duration_seconds of
              None \<Rightarrow> Inl AssertionError
            | Some d \<Rightarrow>
                (let hours = d div 3600;
                     minutes = (d mod 3600) div 60
                 in if hours > 0
                    then (if minutes = 0 then Inr (Dur_hours hours)
                          else Inr (Dur_hours_minutes hours minutes))
                    else Inr (Dur_minutes minutes))))"

definition block_user_prevent_trigger ::
  "BlockConfig \<Rightarrow> AgentCtx \<Rightarrow> string \<Rightarrow> string \<Rightarrow> int option \<Rightarrow> world \<Rightarrow> reply \<times> world" where
  "block_user_prevent_trigger config ctx user_identifier reason_text duration_seconds w0 =
     (if \<not> ENABLE_PREVENT_TRIGGER config then (Disabled PREVENT_TRIGGER, w0)
      else
        (case resolve_duration config duration_seconds w0 of
           ((permanent, expire, duration), w1) \<Rightarrow>
        (case get_or_none (ctx_adapter_key ctx) user_identifier w1 of
           (None, w2) \<Rightarrow> (User_not_found user_identifier, w2)
         | (Some user, w2) \<Rightarrow>
        (case get_block_data (chat_key ctx) w2 of
           (block_data, w3) \<Rightarrow>
        (case get_block block_data (unique_id user) of
           Some existing_block \<Rightarrow>
             (Already_blocked (db_username user)
                (get_block_type_description (block_type existing_block)), w3)
         | None \<Rightarrow>
        (case time_time w3 of
           (now, w4) \<Rightarrow>
        (let record = \<lparr>user_id = unique_id user, username = db_username user,
                       block_type = PREVENT_TRIGGER, reason = reason_text, start_time = now,
                       expire_time = expire, is_permanent = permanent\<rparr>;
             w5 = save_block_data (chat_key ctx) (add_block block_data record) w4
         in case apply_block_to_system (unique_id user) PREVENT_TRIGGER expire w5 of
              (success, w6) \<Rightarrow>
                if \<not> success then (Block_failed (db_username user), w6)
                else (case describe_duration permanent duration of
                        Inl x \<Rightarrow> (Raised x, w6)
                      | Inr time_desc \<Rightarrow>
                          (Block_ok PREVENT_TRIGGER (db_username user) time_desc reason_text,
                           emit Logger_info w6)))))))))"

definition block_user_full ::
  "BlockConfig \<Rightarrow> AgentCtx \<Rightarrow> string \<Rightarrow> string \<Rightarrow> int option \<Rightarrow> world \<Rightarrow> reply \<times> world" where
  "block_user_full config ctx user_identifier reason_text duration_seconds w0 =
     (if \<not> ENABLE_FULL_BLOCK config then (Disabled FULL_BLOCK, w0)
      else
        (case resolve_duration config duration_seconds w0 of
           ((permanent, expire, duration), w1) \<Rightarrow>
        (case get_or_none (ctx_adapter_key ctx) user_identifier w1 of
           (None, w2) \<Rightarrow> (User_not_found user_identifier, w2)
         | (Some user, w2) \<Rightarrow>
        (case get_block_data (chat_key ctx) w2 of
           (block_data, w3) \<Rightarrow>
        (case get_block block_data (unique_id user) of
           Some existing_block \<Rightarrow>
             (Already_blocked (db_username user)
                (get_block_type_description (block_type existing_block)), w3)
         | None \<Rightarrow>
        (case time_time w3 of
           (now, w4) \<Rightarrow>
        (let record = \<lparr>user_id = unique_id user, username = db_username user,
                       block_type = FULL_BLOCK, reason = reason_text, start_time = now,
                       expire_time = expire, is_permanent = permanent\<rparr>;
             w5 = save_block_data (chat_key ctx) (add_block block_data record) w4
         in case apply_block_to_system (unique_id user) FULL_BLOCK expire w5 of
              (success, w6) \<Rightarrow>
                if \<not> success then (Block_failed (db_username user), w6)
                else (case describe_duration permanent duration of
                        Inl x \<Rightarrow> (Raised x, w6)
                      | Inr time_desc \<Rightarrow>
                          (Block_ok FULL_BLOCK (db_username user) time_desc reason_text,
                           emit Logger_info w6)))))))))"

definition unblock_user :: "AgentCtx \<Rightarrow> string \<Rightarrow> world \<Rightarrow> reply \<times> world" where
  "unblock_user ctx user_identifier w0 =
     (case get_or_none (ctx_adapter_key ctx) user_identifier w0 of
        (None, w1) \<Rightarrow> (User_not_found user_identifier, w1)
      | (Some user, w1) \<Rightarrow>
     (case get_block_data (chat_key ctx) w1 of
        (block_data, w2) \<Rightarrow>
     (case get_block block_data (unique_id user) of
        None \<Rightarrow> (Not_blocked (db_username user), w2)
      | Some block_record \<Rightarrow>
     (case remove_block_from_system (unique_id user) (block_type block_record) w2 of
        (success, w3) \<Rightarrow>
          if \<not> success then (Unblock_failed (db_username user), w3)
          else (case remove_block block_data (unique_id user) of
                  (removed, block_data') \<Rightarrow>
                    (Unblock_ok (db_username user),
                     emit Logger_info (save_block_data (chat_key ctx) block_data' w3)))))))"

subsection \<open>The prompt summary\<close>

text \<open>
  A line of the summary: the heading, an entry (block-type symbol, display name, time text,
  reason), or the trailing count of entries left out. The summary is the list of its lines;
  the empty list stands for the empty string, and joining the lines with newlines is left
  out.
\<close>

datatype symbol = Sym_full_block | Sym_prevent_trigger

datatype time_desc = Infinity | Remaining remaining

datatype line =
    Header
  | Entry symbol string time_desc string
  | More int

text \<open>
  The slice \<^verbatim>\<open>xs[:k]\<close>: the first \<open>k\<close> elements, and for a negative \<open>k\<close> all but the last
  \<open>-k\<close>.
\<close>

definition slice_to :: "int \<Rightarrow> 'a list \<Rightarrow> 'a list" where
  "slice_to k xs = (if 0 \<le> k then take (nat k) xs else take (length xs - nat (- k)) xs)"

text \<open>
  The loop over \<^verbatim>\<open>display_blocks\<close>: one entry per record, in order; each
  \<^verbatim>\<open>format_time_remaining\<close> reads the clock.
\<close>

fun render_entries :: "(string \<times> BlockRecord) list \<Rightarrow> world \<Rightarrow> line list \<times> world" where
  "render_entries [] w = ([], w)"
| "render_entries ((uid, record) # rest) w =
     (case (if is_permanent record then (Infinity, w)
            else (case format_time_remaining (expire_time record) w of
                    (text, w') \<Rightarrow> (Remaining text, w')))
      of (time_desc, w1) \<Rightarrow>
        (let block_symbol =
               (if block_type record = FULL_BLOCK then Sym_full_block else Sym_prevent_trigger)
         in case render_entries rest w1 of
              (entries, w2) \<Rightarrow>
                (Entry block_symbol (username record) time_desc (reason record) # entries, w2)))"

text \<open>
  Lines 342 to 356 of \<^verbatim>\<open>inject_blocked_users_prompt\<close>: the summary of a non-empty active
  set.
\<close>

definition render_summary ::
  "BlockConfig \<Rightarrow> BlockRecord dict \<Rightarrow> world \<Rightarrow> line list \<times> world" where
  "render_summary config active_blocks w =
     (let display_count = min (int (length active_blocks)) (MAX_PROMPT_DISPLAY_COUNT config);
          display_blocks = slice_to display_count active_blocks
      in case render_entries display_blocks w of
           (entries, w') \<Rightarrow>
             (Header # entries @
                (if int (length active_blocks) > display_count
                 then [More (int (length active_blocks) - display_count)]
                 else []),
              w'))"

text \<open>
  \<^verbatim>\<open>inject_blocked_users_prompt\<close>: an exception inside the \<^verbatim>\<open>try\<close> is logged and gives the
  empty summary.
\<close>

definition inject_blocked_users_prompt ::
  "BlockConfig \<Rightarrow> AgentCtx \<Rightarrow> world \<Rightarrow> line list \<times> world" where
  "inject_blocked_users_prompt config ctx w0 =
     (if \<not> SHOW_BLOCKED_USERS_IN_PROMPT config then ([], w0)
      else
        (case get_block_data (chat_key ctx) w0 of
           (block_data, w1) \<Rightarrow>
        (case time_time w1 of
           (current_time, w2) \<Rightarrow>
        (case cleanup_expired block_data current_time of
           Inl x \<Rightarrow> ([], emit Logger_warning w2)
         | Inr (cleaned, block_data') \<Rightarrow>
        (case time_time (save_block_data (chat_key ctx) block_data' w2) of
           (current_time', w4) \<Rightarrow>
        (let active_blocks = get_active_blocks block_data' current_time'
         in if active_blocks = [] then ([], w4)
            else render_summary config active_blocks w4))))))"

section \<open>The record a block handler constructs\<close>

text \<open>
  The \<^verbatim>\<open>BlockRecord(...)\<close> call of the block handlers (lines 86 to 94 and 188 to 196), as a
  function of what it is built from: the resolved user, the handler's block type, the
  reason, the clock value read for \<^verbatim>\<open>start_time\<close>, and the \<^verbatim>\<open>expire_time\<close> and
  \<^verbatim>\<open>is_permanent\<close> that the duration block has set.
\<close>

definition new_record ::
  "DBUser \<Rightarrow> BlockType \<Rightarrow> string \<Rightarrow> int \<Rightarrow> int option \<Rightarrow> bool \<Rightarrow> BlockRecord" where
  "new_record user bt reason_text now expire permanent =
     \<lparr>user_id = unique_id user, username = db_username user, block_type = bt,
      reason = reason_text, start_time = now, expire_time = expire,
      is_permanent = permanent\<rparr>"

section \<open>Reading the prompt summary\<close>

text \<open>
  The line is the entry of the record: the symbol of its block type, its display name, its
  reason, and as time text the infinity symbol exactly when the record is permanent (a
  remaining-time text otherwise).
\<close>

fun is_entry_for :: "BlockRecord \<Rightarrow> line \<Rightarrow> bool" where
  "is_entry_for r (Entry mark name td why) =
     (mark = (if block_type r = FULL_BLOCK then Sym_full_block else Sym_prevent_trigger) \<and>
      name = username r \<and> why = reason r \<and>
      (case td of Infinity \<Rightarrow> is_permanent r | Remaining text \<Rightarrow> \<not> is_permanent r))"
| "is_entry_for r Header = False"
| "is_entry_for r (More n) = False"

section \<open>Reading the trace\<close>

text \<open>The host calls that write: a write of the store, a save of a user entity.\<close>

fun is_store_set :: "event \<Rightarrow> bool" where
  "is_store_set (Store_set ck data) = True"
| "is_store_set e = False"

fun is_user_save :: "event \<Rightarrow> bool" where
  "is_user_save (User_save u) = True"
| "is_user_save e = False"

text \<open>The calls made after the state \<open>w\<close> on the way to the state \<open>w'\<close>.\<close>

definition calls_since :: "world \<Rightarrow> world \<Rightarrow> event list" where
  "calls_since w w' = drop (length (trace w)) (trace w')"

section \<open>Example values\<close>

text \<open>Concrete inputs at which the theorems below are evaluated.\<close>

definition example_user :: DBUser where
  "example_user =
     \<lparr>pk = 1, adapter_key = ''onebot'', platform_userid = ''42'', unique_id = ''onebot:42'',
      db_username = ''alice'', prevent_trigger_until = Some (Datetime 1700003600),
      ban_until = Some (Datetime 1700007200)\<rparr>"

definition example_world :: world where
  "example_world =
     \<lparr>users = [example_user], db_writable = True, store = Map.empty,
      clock = (\<lambda>n. 1700000000 + int n), reads = 0, trace = []\<rparr>"

definition example_ctx :: AgentCtx where
  "example_ctx = \<lparr>ctx_adapter_key = ''onebot'', chat_key = ''group_1''\<rparr>"

text \<open>A record that is not permanent and whose expiry is the epoch second 0.\<close>

definition zero_expiry_record :: BlockRecord where
  "zero_expiry_record =
     \<lparr>user_id = ''onebot:42'', username = ''alice'', block_type = FULL_BLOCK,
      reason = ''spam'', start_time = 0, expire_time = Some 0, is_permanent = False\<rparr>"

text \<open>
  A stored record for the example user, a world whose store holds it, and the two worlds
  with a database that refuses writes.
\<close>

definition example_record :: BlockRecord where
  "example_record =
     \<lparr>user_id = ''onebot:42'', username = ''alice'', block_type = FULL_BLOCK,
      reason = ''spam'', start_time = 1699990000, expire_time = Some 1700090000,
      is_permanent = False\<rparr>"

definition blocked_world :: world where
  "blocked_world =
     example_world\<lparr>store := [''group_1'' \<mapsto> \<lparr>blocks = [(''onebot:42'', example_record)]\<rparr>]\<rparr>"

definition readonly_world :: world where
  "readonly_world = example_world\<lparr>db_writable := False\<rparr>"

definition blocked_readonly_world :: world where
  "blocked_readonly_world = blocked_world\<lparr>db_writable := False\<rparr>"

text \<open>Seven active records in one chat: the first expires in two hours, the others are
  permanent.\<close>

definition crowd_record :: "string \<Rightarrow> BlockType \<Rightarrow> int option \<Rightarrow> bool \<Rightarrow> BlockRecord" where
  "crowd_record uid bt e p =
     \<lparr>user_id = uid, username = uid, block_type = bt, reason = ''spam'',
      start_time = 1699990000, expire_time = e, is_permanent = p\<rparr>"

definition crowd :: "BlockRecord dict" where
  "crowd =
     [(''u1'', crowd_record ''u1'' FULL_BLOCK (Some 1700007202) False),
      (''u2'', crowd_record ''u2'' PREVENT_TRIGGER None True),
      (''u3'', crowd_record ''u3'' FULL_BLOCK None True),
      (''u4'', crowd_record ''u4'' FULL_BLOCK None True),
      (''u5'', crowd_record ''u5'' PREVENT_TRIGGER None True),
      (''u6'', crowd_record ''u6'' FULL_BLOCK None True),
      (''u7'', crowd_record ''u7'' FULL_BLOCK None True)]"

definition crowded_world :: world where
  "crowded_world = example_world\<lparr>store := [''group_1'' \<mapsto> \<lparr>blocks = crowd\<rparr>]\<rparr>"

section \<open>Dictionaries: the loops as filters\<close>

text \<open>
  On a dictionary (keys distinct) the loops of \<^verbatim>\<open>get_active_blocks\<close> and
  \<^verbatim>\<open>cleanup_expired\<close> are filters of the items, and no \<^verbatim>\<open>del\<close> raises.
\<close>

lemma dict_set_fresh: "k \<notin> fst ` set d \<Longrightarrow> dict_set k v d = d @ [(k, v)]"
  by (induction d) auto

lemma foldl_active:
  "distinct (map fst (acc @ xs)) \<Longrightarrow>
   foldl (\<lambda>active (uid, record). if P record then dict_set uid record active else active) acc xs
     = acc @ filter (\<lambda>(uid, record). P record) xs"
proof (induction xs arbitrary: acc)
  case Nil
  then show ?case by simp
next
  case (Cons x xs)
  obtain k r where x: "x = (k, r)" by (cases x)
  show ?case
  proof (cases "P r")
    case True
    from Cons.prems x have fresh: "k \<notin> fst ` set acc" by auto
    from Cons.prems x have "distinct (map fst ((acc @ [(k, r)]) @ xs))" by auto
    from Cons.IH[OF this] True fresh x show ?thesis by (simp add: dict_set_fresh)
  next
    case False
    from Cons.prems x have "distinct (map fst (acc @ xs))" by auto
    from Cons.IH[OF this] False x show ?thesis by simp
  qed
qed

lemma get_active_blocks_filter:
  "dict_inv (blocks self) \<Longrightarrow>
   get_active_blocks self t = filter (\<lambda>(uid, record). active_test t record) (blocks self)"
  unfolding get_active_blocks_def dict_inv_def
  using foldl_active[of "[]" "blocks self" "active_test t"] by simp

lemma dict_del_present: "dict_contains k d \<Longrightarrow> dict_del k d = Inr (dict_remove k d)"
  by (simp add: dict_del_def)

lemma del_all_filter:
  "distinct ks \<Longrightarrow> set ks \<subseteq> fst ` set d \<Longrightarrow>
   del_all ks d = Inr (filter (\<lambda>(k, v). k \<notin> set ks) d)"
proof (induction ks arbitrary: d)
  case Nil
  then show ?case by simp
next
  case (Cons k ks)
  from Cons.prems have present: "dict_contains k d" by (simp add: dict_contains_def)
  from Cons.prems have "set ks \<subseteq> fst ` set (dict_remove k d)"
    by (force simp: dict_remove_def)
  with Cons.IH[of "dict_remove k d"] Cons.prems
  have "del_all ks (dict_remove k d) = Inr (filter (\<lambda>(k', v). k' \<notin> set ks) (dict_remove k d))"
    by simp
  moreover have "filter (\<lambda>(k', v). k' \<notin> set ks) (dict_remove k d)
      = filter (\<lambda>(k', v). k' \<notin> set (k # ks)) d"
    by (auto simp: dict_remove_def intro: filter_cong)
  ultimately show ?case using present by (simp add: dict_del_def)
qed

lemma filter_keys_of_filter:
  "distinct (map fst d) \<Longrightarrow>
   filter (\<lambda>(k, v). k \<notin> set (map fst (filter (\<lambda>(k, v). P v) d))) d
     = filter (\<lambda>(k, v). \<not> P v) d"
proof -
  assume dist: "distinct (map fst d)"
  have "\<And>k v. (k, v) \<in> set d \<Longrightarrow>
      (k \<notin> set (map fst (filter (\<lambda>(k, v). P v) d))) = (\<not> P v)"
  proof -
    fix k v assume kv: "(k, v) \<in> set d"
    show "(k \<notin> set (map fst (filter (\<lambda>(k, v). P v) d))) = (\<not> P v)"
    proof
      assume "k \<notin> set (map fst (filter (\<lambda>(k, v). P v) d))"
      with kv show "\<not> P v" by force
    next
      assume np: "\<not> P v"
      show "k \<notin> set (map fst (filter (\<lambda>(k, v). P v) d))"
      proof
        assume "k \<in> set (map fst (filter (\<lambda>(k, v). P v) d))"
        then obtain v' where "(k, v') \<in> set d" "P v'" by auto
        with dist kv have "v' = v" by (meson eq_key_imp_eq_value)
        with \<open>P v'\<close> np show False by simp
      qed
    qed
  qed
  then show ?thesis by (intro filter_cong) auto
qed

lemma cleanup_expired_filter:
  assumes "dict_inv (blocks self)"
  shows "cleanup_expired self t =
     Inr (int (length (filter (\<lambda>(uid, record). expired_test t record) (blocks self))),
          self\<lparr>blocks := filter (\<lambda>(uid, record). \<not> expired_test t record) (blocks self)\<rparr>)"
proof -
  let ?ks = "map fst (filter (\<lambda>(uid, record). expired_test t record) (blocks self))"
  from assms have d: "distinct (map fst (blocks self))" by (simp add: dict_inv_def)
  then have "distinct ?ks" by (simp add: distinct_map_filter)
  moreover have "set ?ks \<subseteq> fst ` set (blocks self)" by auto
  ultimately have "del_all ?ks (blocks self) = Inr (filter (\<lambda>(k, v). k \<notin> set ?ks) (blocks self))"
    by (rule del_all_filter)
  with filter_keys_of_filter[OF d, of "expired_test t"] show ?thesis
    by (simp add: cleanup_expired_def Let_def)
qed

section \<open>Expiry time\<close>

text \<open>
  C1. \<^verbatim>\<open>calculate_expire_time(None)\<close> is \<^verbatim>\<open>None\<close>. For every \<open>seconds \<ge> 0\<close>: when
  \<^verbatim>\<open>MAX_BLOCK_SECONDS\<close> is positive the result is the clock value read by the call plus
  \<open>min seconds MAX_BLOCK_SECONDS\<close>, hence at most \<^verbatim>\<open>MAX_BLOCK_SECONDS\<close> seconds after it; when
  \<^verbatim>\<open>MAX_BLOCK_SECONDS\<close> is zero the result is that clock value plus \<open>seconds\<close>.
\<close>

theorem calculate_expire_time_capped:
  assumes "0 \<le> s"
  shows "fst (calculate_expire_time config None w) = None \<and>
    (0 < MAX_BLOCK_SECONDS config \<longrightarrow>
       fst (calculate_expire_time config (Some s) w)
         = Some (fst (time_time w) + min s (MAX_BLOCK_SECONDS config)) \<and>
       fst (time_time w) + min s (MAX_BLOCK_SECONDS config)
         \<le> fst (time_time w) + MAX_BLOCK_SECONDS config) \<and>
    (MAX_BLOCK_SECONDS config = 0 \<longrightarrow>
       fst (calculate_expire_time config (Some s) w) = Some (fst (time_time w) + s))"
  by (simp add: calculate_expire_time_def time_time_def Let_def)

text \<open>The spec's example: a cap of 86400 and 999999 requested seconds; and no cap.\<close>

theorem calculate_expire_time_capped_witness:
  "(0::int) \<le> 999999 \<and>
   0 < MAX_BLOCK_SECONDS (default_config\<lparr>MAX_BLOCK_SECONDS := 86400\<rparr>) \<and>
   fst (calculate_expire_time (default_config\<lparr>MAX_BLOCK_SECONDS := 86400\<rparr>) (Some 999999) example_world)
     = Some (1700000000 + 86400) \<and>
   MAX_BLOCK_SECONDS (default_config\<lparr>MAX_BLOCK_SECONDS := 0\<rparr>) = 0 \<and>
   fst (calculate_expire_time (default_config\<lparr>MAX_BLOCK_SECONDS := 0\<rparr>) (Some 999999) example_world)
     = Some (1700000000 + 999999)"
proof -
  have h: "(0::int) \<le> 999999" by simp
  show ?thesis
    using calculate_expire_time_capped[OF h, of "default_config\<lparr>MAX_BLOCK_SECONDS := 86400\<rparr>" example_world]
      calculate_expire_time_capped[OF h, of "default_config\<lparr>MAX_BLOCK_SECONDS := 0\<rparr>" example_world]
    by (simp add: default_config_def example_world_def time_time_def)
qed

section \<open>Active records\<close>

text \<open>
  What \<^verbatim>\<open>get_active_blocks\<close> computes, in the words of the specification, for every clock
  value from the epoch on: the permanent records and those whose expiry is set and later
  than the given time.
\<close>

lemma active_test_nonneg:
  "0 \<le> t \<Longrightarrow>
   active_test t r = (is_permanent r \<or> (\<exists>e. expire_time r = Some e \<and> e > t))"
  by (auto simp: active_test_def truthy_def split: option.splits)

lemma get_active_blocks_nonneg:
  assumes "dict_inv (blocks self)" "0 \<le> t"
  shows "get_active_blocks self t =
     filter (\<lambda>(uid, r). is_permanent r \<or> (\<exists>e. expire_time r = Some e \<and> e > t)) (blocks self)"
  using assms by (simp add: get_active_blocks_filter active_test_nonneg)

lemma get_active_blocks_permanent:
  assumes "dict_inv (blocks self)" "(uid, r) \<in> set (blocks self)" "is_permanent r"
  shows "(uid, r) \<in> set (get_active_blocks self t)"
  using assms by (simp add: get_active_blocks_filter active_test_def)

lemma get_active_blocks_expiring_now:
  assumes "dict_inv (blocks self)" "\<not> is_permanent r" "expire_time r = Some t"
  shows "(uid, r) \<notin> set (get_active_blocks self t)"
  using assms by (simp add: get_active_blocks_filter active_test_def)


section \<open>Cleanup\<close>

text \<open>
  C3. The claim: \<^verbatim>\<open>cleanup_expired(t)\<close> removes exactly the non-permanent records whose
  \<^verbatim>\<open>expire_time\<close> is set and at most \<open>t\<close>. The code at a collection holding one
  non-permanent record with \<^verbatim>\<open>expire_time = 0\<close> and at \<open>t = 5\<close>: the expiry is set and not
  later than \<open>t\<close>, and the record is kept and the count is 0, because the truth-value test
  reads 0 as unset.
\<close>

theorem cleanup_expired_zero_expiry:
  "\<not> is_permanent zero_expiry_record \<and> expire_time zero_expiry_record = Some 0 \<and>
   (0::int) \<le> 5 \<and>
   dict_inv [(''onebot:42'', zero_expiry_record)] \<and>
   cleanup_expired \<lparr>blocks = [(''onebot:42'', zero_expiry_record)]\<rparr> 5
     = Inr (0, \<lparr>blocks = [(''onebot:42'', zero_expiry_record)]\<rparr>)"
  by (simp add: zero_expiry_record_def cleanup_expired_def expired_test_def truthy_def dict_inv_def)

text \<open>
  What holds of \<^verbatim>\<open>cleanup_expired\<close> on every dictionary (lemma \<open>cleanup_expired_filter\<close>
  gives the records removed and the count): a second call with the same time removes
  nothing, and permanent records and records without expiry stay.
\<close>

lemma cleanup_expired_idempotent:
  assumes "dict_inv (blocks self)" "cleanup_expired self t = Inr (n, self')"
  shows "cleanup_expired self' t = Inr (0, self')"
proof -
  from assms cleanup_expired_filter[OF assms(1), of t]
  have s': "self' = self\<lparr>blocks := filter (\<lambda>(uid, record). \<not> expired_test t record) (blocks self)\<rparr>"
    by simp
  have inv': "dict_inv (blocks self')"
    using assms(1) by (simp add: s' dict_inv_def distinct_map_filter)
  have "filter (\<lambda>(uid, record). expired_test t record) (blocks self') = []"
    by (auto simp: s' filter_empty_conv)
  moreover have "filter (\<lambda>(uid, record). \<not> expired_test t record) (blocks self') = blocks self'"
    by (auto simp: s' filter_id_conv)
  ultimately show ?thesis using cleanup_expired_filter[OF inv', of t] by simp
qed

lemma cleanup_expired_keeps:
  assumes "dict_inv (blocks self)" "cleanup_expired self t = Inr (n, self')"
    "(uid, r) \<in> set (blocks self)" "is_permanent r \<or> expire_time r = None"
  shows "(uid, r) \<in> set (blocks self')"
  using assms cleanup_expired_filter[OF assms(1), of t]
  by (auto simp: expired_test_def truthy_def)

section \<open>What the steps leave alone\<close>

lemma emit_fields [simp]:
  "users (emit e w) = users w" "store (emit e w) = store w"
  "db_writable (emit e w) = db_writable w" "clock (emit e w) = clock w"
  "reads (emit e w) = reads w" "trace (emit e w) = trace w @ [e]"
  by (simp_all add: emit_def)

lemma time_time_fields [simp]:
  "fst (time_time w) = clock w (reads w)"
  "users (snd (time_time w)) = users w" "store (snd (time_time w)) = store w"
  "db_writable (snd (time_time w)) = db_writable w" "trace (snd (time_time w)) = trace w"
  "clock (snd (time_time w)) = clock w" "reads (snd (time_time w)) = Suc (reads w)"
  by (simp_all add: time_time_def)

lemma calculate_expire_time_fields [simp]:
  "users (snd (calculate_expire_time config seconds w)) = users w"
  "store (snd (calculate_expire_time config seconds w)) = store w"
  "db_writable (snd (calculate_expire_time config seconds w)) = db_writable w"
  "trace (snd (calculate_expire_time config seconds w)) = trace w"
  by (simp_all add: calculate_expire_time_def time_time_def Let_def split: option.splits)

lemma resolve_duration_fields [simp]:
  "users (snd (resolve_duration config dur w)) = users w"
  "store (snd (resolve_duration config dur w)) = store w"
  "db_writable (snd (resolve_duration config dur w)) = db_writable w"
  "trace (snd (resolve_duration config dur w)) = trace w"
proof -
  obtain e w' where c1: "calculate_expire_time config (Some (DEFAULT_BLOCK_SECONDS config)) w = (e, w')"
    by (cases "calculate_expire_time config (Some (DEFAULT_BLOCK_SECONDS config)) w")
  obtain e2 w2 where c2: "calculate_expire_time config dur w = (e2, w2)"
    by (cases "calculate_expire_time config dur w")
  from c1 calculate_expire_time_fields[of config "Some (DEFAULT_BLOCK_SECONDS config)" w]
  have f1: "users w' = users w" "store w' = store w" "db_writable w' = db_writable w" "trace w' = trace w"
    by simp_all
  from c2 calculate_expire_time_fields[of config dur w]
  have f2: "users w2 = users w" "store w2 = store w" "db_writable w2 = db_writable w" "trace w2 = trace w"
    by simp_all
  show "users (snd (resolve_duration config dur w)) = users w"
    "store (snd (resolve_duration config dur w)) = store w"
    "db_writable (snd (resolve_duration config dur w)) = db_writable w"
    "trace (snd (resolve_duration config dur w)) = trace w"
    by (simp_all add: resolve_duration_def c1 c2 f1 f2)
qed

lemma get_block_data_fields [simp]:
  "snd (get_block_data ck w) = emit (Store_get ck) w"
  "fst (get_block_data ck w) = (case store w ck of Some data \<Rightarrow> data | None \<Rightarrow> BlockData_empty)"
  by (simp_all add: get_block_data_def split: option.splits)

lemma save_block_data_fields [simp]:
  "users (save_block_data ck data w) = users w"
  "store (save_block_data ck data w) = (store w)(ck \<mapsto> data)"
  "db_writable (save_block_data ck data w) = db_writable w"
  "trace (save_block_data ck data w) = trace w @ [Store_set ck data]"
  by (simp_all add: save_block_data_def)

lemma get_user_by_unique_id_fields [simp]:
  "users (snd (get_user_by_unique_id uid w)) = users w"
  "store (snd (get_user_by_unique_id uid w)) = store w"
  "db_writable (snd (get_user_by_unique_id uid w)) = db_writable w"
  by (simp_all add: get_user_by_unique_id_def get_by_union_id_def split: option.splits prod.splits)

lemma get_user_by_unique_id_trace:
  "\<exists>evs. trace (snd (get_user_by_unique_id uid w)) = trace w @ evs \<and>
     (\<forall>e \<in> set evs. \<not> is_store_set e \<and> \<not> is_user_save e)"
  by (auto simp: get_user_by_unique_id_def get_by_union_id_def split: option.splits prod.splits)

lemma save_fields [simp]:
  "store (snd (save u w)) = store w"
  "db_writable (snd (save u w)) = db_writable w"
  "trace (snd (save u w)) = trace w @ [User_save u]"
  by (simp_all add: save_def)

lemma apply_block_to_system_store [simp]:
  "store (snd (apply_block_to_system uid bt expire w)) = store w"
proof -
  obtain user w1 where g: "get_user_by_unique_id uid w = (user, w1)"
    by (cases "get_user_by_unique_id uid w")
  with get_user_by_unique_id_fields(2)[of uid w] have s1: "store w1 = store w" by simp
  have "\<And>u. store (snd (save u w1)) = store w" using s1 by simp
  then have "\<And>u r w2. save u w1 = (r, w2) \<Longrightarrow> store w2 = store w" by (metis snd_conv)
  with g s1 show ?thesis
    by (auto simp: apply_block_to_system_def Let_def split: prod.splits option.splits sum.splits)
qed

lemma remove_block_from_system_store [simp]:
  "store (snd (remove_block_from_system uid bt w)) = store w"
proof -
  obtain user w1 where g: "get_user_by_unique_id uid w = (user, w1)"
    by (cases "get_user_by_unique_id uid w")
  with get_user_by_unique_id_fields(2)[of uid w] have s1: "store w1 = store w" by simp
  have "\<And>u. store (snd (save u w1)) = store w" using s1 by simp
  then have "\<And>u r w2. save u w1 = (r, w2) \<Longrightarrow> store w2 = store w" by (metis snd_conv)
  with g s1 show ?thesis
    by (auto simp: remove_block_from_system_def Let_def split: prod.splits option.splits sum.splits)
qed

lemma apply_block_to_system_trace:
  "\<exists>evs. trace (snd (apply_block_to_system uid bt expire w)) = trace w @ evs \<and>
     (\<forall>e \<in> set evs. \<not> is_store_set e)"
proof -
  obtain evs where evs: "trace (snd (get_user_by_unique_id uid w)) = trace w @ evs"
    "\<forall>e \<in> set evs. \<not> is_store_set e \<and> \<not> is_user_save e"
    using get_user_by_unique_id_trace by blast
  obtain user w1 where g: "get_user_by_unique_id uid w = (user, w1)" by (cases "get_user_by_unique_id uid w")
  with evs have t1: "trace w1 = trace w @ evs" by simp
  show ?thesis
  proof (cases user)
    case None
    with g t1 evs show ?thesis by (auto simp: apply_block_to_system_def)
  next
    case (Some u)
    show ?thesis
    proof (cases "expire_datetime_of expire")
      case (Inl x)
      with g Some t1 evs show ?thesis by (auto simp: apply_block_to_system_def)
    next
      case (Inr dt)
      let ?u' = "if bt = PREVENT_TRIGGER then u\<lparr>prevent_trigger_until := dt\<rparr> else u\<lparr>ban_until := dt\<rparr>"
      have "trace (snd (apply_block_to_system uid bt expire w)) = trace w @ (evs @ [User_save ?u'])"
        using g Some Inr t1
        by (cases "save ?u' w1")
          (auto simp: apply_block_to_system_def Let_def save_def split: sum.splits if_splits)
      moreover have "\<forall>e \<in> set (evs @ [User_save ?u']). \<not> is_store_set e" using evs by auto
      ultimately show ?thesis by blast
    qed
  qed
qed

section \<open>The system effect of a permanent block\<close>

lemma expire_datetime_of_falsy:
  "expire_datetime_of None = Inr None" "expire_datetime_of (Some 0) = Inr None"
  by (simp_all add: expire_datetime_of_def truthy_def)

text \<open>
  C9. For every user id and block type, \<^verbatim>\<open>apply(user_id, block_type, None)\<close> is the same
  state change, with the same result, as \<^verbatim>\<open>remove(user_id, block_type)\<close>, and so is
  \<^verbatim>\<open>apply\<close> with an expiry of 0. When the user resolves and the save succeeds, both return
  \<^verbatim>\<open>True\<close> and the saved entity has \<^verbatim>\<open>None\<close> in the field the block type selects, the
  other field as it was.
\<close>

theorem apply_permanent_is_remove:
  "apply_block_to_system uid bt None w = remove_block_from_system uid bt w \<and>
   apply_block_to_system uid bt (Some 0) w = remove_block_from_system uid bt w \<and>
   (\<forall>user. fst (get_user_by_unique_id uid w) = Some user \<and> db_writable w \<longrightarrow>
      fst (remove_block_from_system uid bt w) \<and>
      users (snd (remove_block_from_system uid bt w)) =
        map (\<lambda>r. if pk r = pk user
                 then (if bt = PREVENT_TRIGGER then user\<lparr>prevent_trigger_until := None\<rparr>
                       else user\<lparr>ban_until := None\<rparr>)
                 else r) (users w))"
proof (intro conjI allI impI)
  show "apply_block_to_system uid bt None w = remove_block_from_system uid bt w"
    by (simp add: apply_block_to_system_def remove_block_from_system_def
        expire_datetime_of_falsy split: prod.split option.split)
  show "apply_block_to_system uid bt (Some 0) w = remove_block_from_system uid bt w"
    by (simp add: apply_block_to_system_def remove_block_from_system_def
        expire_datetime_of_falsy split: prod.split option.split)
next
  fix user
  assume a: "fst (get_user_by_unique_id uid w) = Some user \<and> db_writable w"
  obtain w1 where g: "get_user_by_unique_id uid w = (Some user, w1)"
    using a by (cases "get_user_by_unique_id uid w") simp
  from g have u1: "users w1 = users w" "db_writable w1 = db_writable w"
    using get_user_by_unique_id_fields[of uid w] by simp_all
  from g u1 a show "fst (remove_block_from_system uid bt w)"
    by (simp add: remove_block_from_system_def Let_def save_def)
  from g u1 a show "users (snd (remove_block_from_system uid bt w)) =
        map (\<lambda>r. if pk r = pk user
                 then (if bt = PREVENT_TRIGGER then user\<lparr>prevent_trigger_until := None\<rparr>
                       else user\<lparr>ban_until := None\<rparr>)
                 else r) (users w)"
    by (simp add: remove_block_from_system_def Let_def save_def)
qed

lemma split_once_example: "split_once ''onebot:42'' = Some (''onebot'', ''42'')"
  by (simp add: split_once_def)

lemma example_lookup:
  "get_user_by_unique_id ''onebot:42'' example_world
     = (Some example_user, emit (Get_by_union_id ''onebot'' ''42'') example_world)"
  by (simp add: get_user_by_unique_id_def split_once_example get_by_union_id_def
      example_world_def example_user_def)

theorem apply_permanent_is_remove_witness:
  "fst (get_user_by_unique_id ''onebot:42'' example_world) = Some example_user \<and>
   db_writable example_world \<and>
   prevent_trigger_until example_user = Some (Datetime 1700003600) \<and>
   fst (apply_block_to_system ''onebot:42'' PREVENT_TRIGGER None example_world) \<and>
   users (snd (apply_block_to_system ''onebot:42'' PREVENT_TRIGGER None example_world))
     = [example_user\<lparr>prevent_trigger_until := None\<rparr>] \<and>
   users (snd (remove_block_from_system ''onebot:42'' PREVENT_TRIGGER example_world))
     = [example_user\<lparr>prevent_trigger_until := None\<rparr>]"
proof -
  have h: "fst (get_user_by_unique_id ''onebot:42'' example_world) = Some example_user \<and>
     db_writable example_world"
    by (simp add: example_lookup) (simp add: example_world_def)
  have u: "users example_world = [example_user]" by (simp add: example_world_def)
  have p: "prevent_trigger_until example_user = Some (Datetime 1700003600)"
    by (simp add: example_user_def)
  from apply_permanent_is_remove[of "''onebot:42''" PREVENT_TRIGGER example_world] h
  have "apply_block_to_system ''onebot:42'' PREVENT_TRIGGER None example_world
          = remove_block_from_system ''onebot:42'' PREVENT_TRIGGER example_world"
    and "fst (remove_block_from_system ''onebot:42'' PREVENT_TRIGGER example_world)"
    and "users (snd (remove_block_from_system ''onebot:42'' PREVENT_TRIGGER example_world))
          = [example_user\<lparr>prevent_trigger_until := None\<rparr>]"
    by (simp_all add: u)
  with h p show ?thesis by simp
qed

section \<open>The block handlers, step by step\<close>

lemma get_or_none_fields [simp]:
  "snd (get_or_none ak pid w) = emit (Get_or_none ak pid) w"
  by (simp add: get_or_none_def)

lemma block_user_prevent_trigger_steps:
  assumes "ENABLE_PREVENT_TRIGGER config"
    and "resolve_duration config dur w = ((p, e, d), w1)"
    and "fst (get_or_none (ctx_adapter_key ctx) ident w) = Some user"
    and "fst (get_block_data (chat_key ctx) w) = data"
  shows "block_user_prevent_trigger config ctx ident reason_text dur w =
    (let w3 = emit (Store_get (chat_key ctx)) (emit (Get_or_none (ctx_adapter_key ctx) ident) w1)
     in case get_block data (unique_id user) of
          Some existing_block \<Rightarrow>
            (Already_blocked (db_username user)
               (get_block_type_description (block_type existing_block)), w3)
        | None \<Rightarrow>
            (let record = \<lparr>user_id = unique_id user, username = db_username user,
                           block_type = PREVENT_TRIGGER, reason = reason_text,
                           start_time = fst (time_time w3),
                           expire_time = e, is_permanent = p\<rparr>;
                 w5 = save_block_data (chat_key ctx) (add_block data record) (snd (time_time w3))
             in case apply_block_to_system (unique_id user) PREVENT_TRIGGER e w5 of
                  (success, w6) \<Rightarrow>
                    if \<not> success then (Block_failed (db_username user), w6)
                    else (case describe_duration p d of
                            Inl x \<Rightarrow> (Raised x, w6)
                          | Inr time_desc \<Rightarrow>
                              (Block_ok PREVENT_TRIGGER (db_username user) time_desc reason_text,
                               emit Logger_info w6))))"
proof -
  from assms(2) have f: "users w1 = users w" "store w1 = store w"
    using resolve_duration_fields[of config dur w] by simp_all
  have g: "get_or_none (ctx_adapter_key ctx) ident w1
      = (Some user, emit (Get_or_none (ctx_adapter_key ctx) ident) w1)"
    using assms(3) f by (simp add: get_or_none_def)
  have b: "get_block_data (chat_key ctx) (emit (Get_or_none (ctx_adapter_key ctx) ident) w1)
      = (data, emit (Store_get (chat_key ctx)) (emit (Get_or_none (ctx_adapter_key ctx) ident) w1))"
    using assms(4) f by (simp add: get_block_data_def split: option.splits)
  show ?thesis
    by (simp add: block_user_prevent_trigger_def assms(1,2) g b Let_def
        split: prod.splits option.splits)
qed

lemma block_user_full_steps:
  assumes "ENABLE_FULL_BLOCK config"
    and "resolve_duration config dur w = ((p, e, d), w1)"
    and "fst (get_or_none (ctx_adapter_key ctx) ident w) = Some user"
    and "fst (get_block_data (chat_key ctx) w) = data"
  shows "block_user_full config ctx ident reason_text dur w =
    (let w3 = emit (Store_get (chat_key ctx)) (emit (Get_or_none (ctx_adapter_key ctx) ident) w1)
     in case get_block data (unique_id user) of
          Some existing_block \<Rightarrow>
            (Already_blocked (db_username user)
               (get_block_type_description (block_type existing_block)), w3)
        | None \<Rightarrow>
            (let record = \<lparr>user_id = unique_id user, username = db_username user,
                           block_type = FULL_BLOCK, reason = reason_text,
                           start_time = fst (time_time w3),
                           expire_time = e, is_permanent = p\<rparr>;
                 w5 = save_block_data (chat_key ctx) (add_block data record) (snd (time_time w3))
             in case apply_block_to_system (unique_id user) FULL_BLOCK e w5 of
                  (success, w6) \<Rightarrow>
                    if \<not> success then (Block_failed (db_username user), w6)
                    else (case describe_duration p d of
                            Inl x \<Rightarrow> (Raised x, w6)
                          | Inr time_desc \<Rightarrow>
                              (Block_ok FULL_BLOCK (db_username user) time_desc reason_text,
                               emit Logger_info w6))))"
proof -
  from assms(2) have f: "users w1 = users w" "store w1 = store w"
    using resolve_duration_fields[of config dur w] by simp_all
  have g: "get_or_none (ctx_adapter_key ctx) ident w1
      = (Some user, emit (Get_or_none (ctx_adapter_key ctx) ident) w1)"
    using assms(3) f by (simp add: get_or_none_def)
  have b: "get_block_data (chat_key ctx) (emit (Get_or_none (ctx_adapter_key ctx) ident) w1)
      = (data, emit (Store_get (chat_key ctx)) (emit (Get_or_none (ctx_adapter_key ctx) ident) w1))"
    using assms(4) f by (simp add: get_block_data_def split: option.splits)
  show ?thesis
    by (simp add: block_user_full_def assms(1,2) g b Let_def
        split: prod.splits option.splits)
qed

lemma dict_get_dict_set: "dict_get (dict_set k v d) k = Some v"
  by (induction d) (auto simp: dict_get_def)

lemma get_block_add_block: "get_block (add_block data r) (user_id r) = Some r"
  by (simp add: get_block_def add_block_def dict_get_dict_set)

lemma calls_since_append [simp]: "trace w' = trace w @ evs \<Longrightarrow> calls_since w w' = evs"
  by (simp add: calls_since_def)

section \<open>Blocking a user who is already blocked\<close>

text \<open>
  C5. A block handler of either type, called for a user who resolves and who has a record
  in the loaded collection, returns the already-blocked text with the description of the
  existing record's block type, whatever type was requested. It changes nothing: the store
  and the user table are as before, the only host calls are the user lookup and the read
  of the store, and a reload gives the same collection.
\<close>

theorem already_blocked_no_mutation:
  assumes "fst (get_or_none (ctx_adapter_key ctx) ident w) = Some user"
    and "fst (get_block_data (chat_key ctx) w) = data"
    and "get_block data (unique_id user) = Some existing"
  shows "(ENABLE_PREVENT_TRIGGER config \<longrightarrow>
      fst (block_user_prevent_trigger config ctx ident reason_text dur w)
        = Already_blocked (db_username user) (get_block_type_description (block_type existing)) \<and>
      store (snd (block_user_prevent_trigger config ctx ident reason_text dur w)) = store w \<and>
      users (snd (block_user_prevent_trigger config ctx ident reason_text dur w)) = users w \<and>
      calls_since w (snd (block_user_prevent_trigger config ctx ident reason_text dur w))
        = [Get_or_none (ctx_adapter_key ctx) ident, Store_get (chat_key ctx)] \<and>
      fst (get_block_data (chat_key ctx)
             (snd (block_user_prevent_trigger config ctx ident reason_text dur w))) = data) \<and>
    (ENABLE_FULL_BLOCK config \<longrightarrow>
      fst (block_user_full config ctx ident reason_text dur w)
        = Already_blocked (db_username user) (get_block_type_description (block_type existing)) \<and>
      store (snd (block_user_full config ctx ident reason_text dur w)) = store w \<and>
      users (snd (block_user_full config ctx ident reason_text dur w)) = users w \<and>
      calls_since w (snd (block_user_full config ctx ident reason_text dur w))
        = [Get_or_none (ctx_adapter_key ctx) ident, Store_get (chat_key ctx)] \<and>
      fst (get_block_data (chat_key ctx)
             (snd (block_user_full config ctx ident reason_text dur w))) = data)"
proof -
  obtain p e d w1 where rd: "resolve_duration config dur w = ((p, e, d), w1)"
    by (cases "resolve_duration config dur w") auto
  from rd have f: "users w1 = users w" "store w1 = store w" "trace w1 = trace w"
    using resolve_duration_fields[of config dur w] by simp_all
  let ?w3 = "emit (Store_get (chat_key ctx)) (emit (Get_or_none (ctx_adapter_key ctx) ident) w1)"
  have t: "trace ?w3 = trace w @ [Get_or_none (ctx_adapter_key ctx) ident, Store_get (chat_key ctx)]"
    by (simp add: f)
  have l: "fst (get_block_data (chat_key ctx) ?w3) = data"
    using assms(2) by (simp add: f)
  have pt: "block_user_prevent_trigger config ctx ident reason_text dur w
      = (Already_blocked (db_username user) (get_block_type_description (block_type existing)), ?w3)"
    if "ENABLE_PREVENT_TRIGGER config"
    using block_user_prevent_trigger_steps[OF that rd assms(1,2)] assms(3) by simp
  have fb: "block_user_full config ctx ident reason_text dur w
      = (Already_blocked (db_username user) (get_block_type_description (block_type existing)), ?w3)"
    if "ENABLE_FULL_BLOCK config"
    using block_user_full_steps[OF that rd assms(1,2)] assms(3) by simp
  show ?thesis
  proof (intro conjI impI)
    assume en: "ENABLE_PREVENT_TRIGGER config"
    note r = pt[OF en]
    show "fst (block_user_prevent_trigger config ctx ident reason_text dur w)
        = Already_blocked (db_username user) (get_block_type_description (block_type existing))"
      by (simp add: r)
    show "store (snd (block_user_prevent_trigger config ctx ident reason_text dur w)) = store w"
      by (simp add: r f)
    show "users (snd (block_user_prevent_trigger config ctx ident reason_text dur w)) = users w"
      by (simp add: r f)
    show "calls_since w (snd (block_user_prevent_trigger config ctx ident reason_text dur w))
        = [Get_or_none (ctx_adapter_key ctx) ident, Store_get (chat_key ctx)]"
      using t by (simp only: r snd_conv calls_since_append)
    show "fst (get_block_data (chat_key ctx)
             (snd (block_user_prevent_trigger config ctx ident reason_text dur w))) = data"
      using l by (simp only: r snd_conv)
  next
    assume en: "ENABLE_FULL_BLOCK config"
    note r = fb[OF en]
    show "fst (block_user_full config ctx ident reason_text dur w)
        = Already_blocked (db_username user) (get_block_type_description (block_type existing))"
      by (simp add: r)
    show "store (snd (block_user_full config ctx ident reason_text dur w)) = store w"
      by (simp add: r f)
    show "users (snd (block_user_full config ctx ident reason_text dur w)) = users w"
      by (simp add: r f)
    show "calls_since w (snd (block_user_full config ctx ident reason_text dur w))
        = [Get_or_none (ctx_adapter_key ctx) ident, Store_get (chat_key ctx)]"
      using t by (simp only: r snd_conv calls_since_append)
    show "fst (get_block_data (chat_key ctx)
             (snd (block_user_full config ctx ident reason_text dur w))) = data"
      using l by (simp only: r snd_conv)
  qed
qed

lemma blocked_world_facts:
  "users blocked_world = [example_user]"
  "store blocked_world ''group_1'' = Some \<lparr>blocks = [(''onebot:42'', example_record)]\<rparr>"
  "trace blocked_world = []"
  by (simp_all add: blocked_world_def example_world_def)

lemma example_user_facts:
  "adapter_key example_user = ''onebot''" "platform_userid example_user = ''42''"
  "unique_id example_user = ''onebot:42''" "db_username example_user = ''alice''"
  "pk example_user = 1"
  by (simp_all add: example_user_def)

lemma example_ctx_facts:
  "ctx_adapter_key example_ctx = ''onebot''" "chat_key example_ctx = ''group_1''"
  by (simp_all add: example_ctx_def)

text \<open>
  The example user holds a full block; a request for a prevent-trigger block is answered
  with the description of the full block and leaves the store alone.
\<close>

theorem already_blocked_no_mutation_witness:
  "fst (get_or_none (ctx_adapter_key example_ctx) ''42'' blocked_world) = Some example_user \<and>
   fst (get_block_data (chat_key example_ctx) blocked_world)
     = \<lparr>blocks = [(''onebot:42'', example_record)]\<rparr> \<and>
   get_block \<lparr>blocks = [(''onebot:42'', example_record)]\<rparr> (unique_id example_user)
     = Some example_record \<and>
   ENABLE_PREVENT_TRIGGER default_config \<and>
   fst (block_user_prevent_trigger default_config example_ctx ''42'' ''flood'' (Some 60) blocked_world)
     = Already_blocked ''alice'' Desc_full_block \<and>
   store (snd (block_user_prevent_trigger default_config example_ctx ''42'' ''flood'' (Some 60)
            blocked_world)) = store blocked_world \<and>
   users (snd (block_user_prevent_trigger default_config example_ctx ''42'' ''flood'' (Some 60)
            blocked_world)) = users blocked_world"
proof -
  have h1: "fst (get_or_none (ctx_adapter_key example_ctx) ''42'' blocked_world) = Some example_user"
    by (simp add: get_or_none_def blocked_world_facts example_user_facts example_ctx_facts)
  have h2: "fst (get_block_data (chat_key example_ctx) blocked_world)
     = \<lparr>blocks = [(''onebot:42'', example_record)]\<rparr>"
    by (simp add: blocked_world_facts example_ctx_facts)
  have h3: "get_block \<lparr>blocks = [(''onebot:42'', example_record)]\<rparr> (unique_id example_user)
     = Some example_record"
    by (simp add: get_block_def dict_get_def example_user_facts)
  have en: "ENABLE_PREVENT_TRIGGER default_config" by (simp add: default_config_def)
  have bt: "block_type example_record = FULL_BLOCK" by (simp add: example_record_def)
  from already_blocked_no_mutation[OF h1 h2 h3, of default_config "''flood''" "Some 60"] en
  show ?thesis using h1 h2 h3 by (simp add: example_user_facts bt)
qed

section \<open>Creating a record\<close>

lemma new_record_fields [simp]:
  "user_id (new_record user bt reason_text now expire permanent) = unique_id user"
  "username (new_record user bt reason_text now expire permanent) = db_username user"
  "block_type (new_record user bt reason_text now expire permanent) = bt"
  "reason (new_record user bt reason_text now expire permanent) = reason_text"
  "start_time (new_record user bt reason_text now expire permanent) = now"
  "expire_time (new_record user bt reason_text now expire permanent) = expire"
  "is_permanent (new_record user bt reason_text now expire permanent) = permanent"
  by (simp_all add: new_record_def)

text \<open>
  A block handler called with its feature enabled, for a user who resolves and has no
  record in the loaded collection: the store holds, under the chat key, the loaded
  collection with the constructed record added, whether or not the system effect succeeds.
\<close>

lemma block_user_prevent_trigger_store:
  assumes "ENABLE_PREVENT_TRIGGER config"
    and "resolve_duration config dur w = ((p, e, d), w1)"
    and "fst (get_or_none (ctx_adapter_key ctx) ident w) = Some user"
    and "fst (get_block_data (chat_key ctx) w) = data"
    and "get_block data (unique_id user) = None"
  shows "store (snd (block_user_prevent_trigger config ctx ident reason_text dur w))
    = (store w)(chat_key ctx \<mapsto>
        add_block data (new_record user PREVENT_TRIGGER reason_text (fst (time_time w1)) e p))"
proof -
  from assms(2) have f: "store w1 = store w"
    using resolve_duration_fields[of config dur w] by simp
  let ?w3 = "emit (Store_get (chat_key ctx)) (emit (Get_or_none (ctx_adapter_key ctx) ident) w1)"
  let ?r = "new_record user PREVENT_TRIGGER reason_text (fst (time_time w1)) e p"
  let ?w5 = "save_block_data (chat_key ctx) (add_block data ?r) (snd (time_time ?w3))"
  obtain success w6 where a: "apply_block_to_system (unique_id user) PREVENT_TRIGGER e ?w5 = (success, w6)"
    by (cases "apply_block_to_system (unique_id user) PREVENT_TRIGGER e ?w5")
  from a apply_block_to_system_store[of "unique_id user" PREVENT_TRIGGER e ?w5]
  have s6: "store w6 = (store w)(chat_key ctx \<mapsto> add_block data ?r)" by (simp add: f)
  have "block_user_prevent_trigger config ctx ident reason_text dur w =
      (if \<not> success then (Block_failed (db_username user), w6)
       else (case describe_duration p d of
               Inl x \<Rightarrow> (Raised x, w6)
             | Inr time_desc \<Rightarrow>
                 (Block_ok PREVENT_TRIGGER (db_username user) time_desc reason_text,
                  emit Logger_info w6)))"
    using block_user_prevent_trigger_steps[OF assms(1-4), of reason_text] assms(5) a
    by (simp add: Let_def new_record_def)
  then show ?thesis using s6 by (simp split: sum.splits)
qed

lemma block_user_full_store:
  assumes "ENABLE_FULL_BLOCK config"
    and "resolve_duration config dur w = ((p, e, d), w1)"
    and "fst (get_or_none (ctx_adapter_key ctx) ident w) = Some user"
    and "fst (get_block_data (chat_key ctx) w) = data"
    and "get_block data (unique_id user) = None"
  shows "store (snd (block_user_full config ctx ident reason_text dur w))
    = (store w)(chat_key ctx \<mapsto>
        add_block data (new_record user FULL_BLOCK reason_text (fst (time_time w1)) e p))"
proof -
  from assms(2) have f: "store w1 = store w"
    using resolve_duration_fields[of config dur w] by simp
  let ?w3 = "emit (Store_get (chat_key ctx)) (emit (Get_or_none (ctx_adapter_key ctx) ident) w1)"
  let ?r = "new_record user FULL_BLOCK reason_text (fst (time_time w1)) e p"
  let ?w5 = "save_block_data (chat_key ctx) (add_block data ?r) (snd (time_time ?w3))"
  obtain success w6 where a: "apply_block_to_system (unique_id user) FULL_BLOCK e ?w5 = (success, w6)"
    by (cases "apply_block_to_system (unique_id user) FULL_BLOCK e ?w5")
  from a apply_block_to_system_store[of "unique_id user" FULL_BLOCK e ?w5]
  have s6: "store w6 = (store w)(chat_key ctx \<mapsto> add_block data ?r)" by (simp add: f)
  have "block_user_full config ctx ident reason_text dur w =
      (if \<not> success then (Block_failed (db_username user), w6)
       else (case describe_duration p d of
               Inl x \<Rightarrow> (Raised x, w6)
             | Inr time_desc \<Rightarrow>
                 (Block_ok FULL_BLOCK (db_username user) time_desc reason_text,
                  emit Logger_info w6)))"
    using block_user_full_steps[OF assms(1-4), of reason_text] assms(5) a
    by (simp add: Let_def new_record_def)
  then show ?thesis using s6 by (simp split: sum.splits)
qed

text \<open>What the duration block sets, case by case.\<close>

lemma resolve_duration_explicit:
  "0 \<le> s \<Longrightarrow>
   resolve_duration config (Some s) w
     = ((False, fst (calculate_expire_time config (Some s) w), Some s),
        snd (calculate_expire_time config (Some s) w))"
  by (simp add: resolve_duration_def absent_or_negative_def split: prod.splits)

lemma resolve_duration_permanent:
  "dur = None \<or> (\<exists>s. dur = Some s \<and> s < 0) \<Longrightarrow> ALLOW_PERMANENT_BLOCK config \<Longrightarrow>
   resolve_duration config dur w = ((True, None, None), w)"
  by (auto simp: resolve_duration_def absent_or_negative_def)

lemma resolve_duration_default:
  "dur = None \<or> (\<exists>s. dur = Some s \<and> s < 0) \<Longrightarrow> \<not> ALLOW_PERMANENT_BLOCK config \<Longrightarrow>
   resolve_duration config dur w
     = ((False, fst (calculate_expire_time config (Some (DEFAULT_BLOCK_SECONDS config)) w),
         Some (DEFAULT_BLOCK_SECONDS config)),
        snd (calculate_expire_time config (Some (DEFAULT_BLOCK_SECONDS config)) w))"
  by (auto simp: resolve_duration_def absent_or_negative_def split: prod.splits)

lemma calculate_expire_time_Some:
  "\<exists>t. fst (calculate_expire_time config (Some s) w) = Some t"
  by (simp add: calculate_expire_time_def Let_def split: prod.splits)

lemma duration_cases:
  "(\<exists>s::int. dur = Some s \<and> 0 \<le> s) \<or> dur = None \<or> (\<exists>s. dur = Some s \<and> s < 0)"
  by (cases dur) auto

lemma resolve_duration_invariant:
  assumes "resolve_duration config dur w = ((p, e, d), w1)"
  shows "(p \<longrightarrow> e = None) \<and> (\<not> p \<longrightarrow> (\<exists>t. e = Some t))"
proof -
  consider (explicit) s where "dur = Some s" "0 \<le> s"
    | (absent) "dur = None \<or> (\<exists>s. dur = Some s \<and> s < 0)"
    using duration_cases[of dur] by blast
  then show ?thesis
  proof cases
    case explicit
    with assms resolve_duration_explicit[of s config w] calculate_expire_time_Some[of config s w]
    show ?thesis by auto
  next
    case absent
    show ?thesis
    proof (cases "ALLOW_PERMANENT_BLOCK config")
      case True
      with absent assms resolve_duration_permanent[of dur config w] show ?thesis by auto
    next
      case False
      with absent assms resolve_duration_default[of dur config w]
        calculate_expire_time_Some[of config "DEFAULT_BLOCK_SECONDS config" w]
      show ?thesis by auto
    qed
  qed
qed

text \<open>
  C4. Whatever the duration argument and the configuration: when a block handler creates a
  record (its feature enabled, the user resolved, no record for the user in the loaded
  collection), the record it stores is the one built from the \<^verbatim>\<open>is_permanent\<close> and
  \<^verbatim>\<open>expire_time\<close> that the duration block has set, and that record has no expiry if it is
  permanent and has an expiry if it is not.
\<close>

theorem created_record_invariant:
  assumes "resolve_duration config dur w = ((p, e, d), w1)"
    and "fst (get_or_none (ctx_adapter_key ctx) ident w) = Some user"
    and "fst (get_block_data (chat_key ctx) w) = data"
    and "get_block data (unique_id user) = None"
  shows "(ENABLE_PREVENT_TRIGGER config \<longrightarrow>
      store (snd (block_user_prevent_trigger config ctx ident reason_text dur w)) (chat_key ctx)
        = Some (add_block data
            (new_record user PREVENT_TRIGGER reason_text (fst (time_time w1)) e p))) \<and>
    (ENABLE_FULL_BLOCK config \<longrightarrow>
      store (snd (block_user_full config ctx ident reason_text dur w)) (chat_key ctx)
        = Some (add_block data
            (new_record user FULL_BLOCK reason_text (fst (time_time w1)) e p))) \<and>
    get_block (add_block data (new_record user bt reason_text now e p)) (unique_id user)
      = Some (new_record user bt reason_text now e p) \<and>
    (is_permanent (new_record user bt reason_text now e p) \<longrightarrow>
       expire_time (new_record user bt reason_text now e p) = None) \<and>
    (\<not> is_permanent (new_record user bt reason_text now e p) \<longrightarrow>
       (\<exists>t. expire_time (new_record user bt reason_text now e p) = Some t))"
proof (intro conjI)
  show "ENABLE_PREVENT_TRIGGER config \<longrightarrow>
      store (snd (block_user_prevent_trigger config ctx ident reason_text dur w)) (chat_key ctx)
        = Some (add_block data
            (new_record user PREVENT_TRIGGER reason_text (fst (time_time w1)) e p))"
    using block_user_prevent_trigger_store[OF _ assms, of reason_text] by simp
  show "ENABLE_FULL_BLOCK config \<longrightarrow>
      store (snd (block_user_full config ctx ident reason_text dur w)) (chat_key ctx)
        = Some (add_block data
            (new_record user FULL_BLOCK reason_text (fst (time_time w1)) e p))"
    using block_user_full_store[OF _ assms, of reason_text] by simp
  show "get_block (add_block data (new_record user bt reason_text now e p)) (unique_id user)
      = Some (new_record user bt reason_text now e p)"
    using get_block_add_block[of data "new_record user bt reason_text now e p"] by simp
  show "is_permanent (new_record user bt reason_text now e p) \<longrightarrow>
       expire_time (new_record user bt reason_text now e p) = None"
    using resolve_duration_invariant[OF assms(1)] by simp
  show "\<not> is_permanent (new_record user bt reason_text now e p) \<longrightarrow>
       (\<exists>t. expire_time (new_record user bt reason_text now e p) = Some t)"
    using resolve_duration_invariant[OF assms(1)] by simp
qed

lemma example_world_facts:
  "users example_world = [example_user]" "store example_world ck = None"
  "trace example_world = []" "reads example_world = 0"
  "clock example_world n = 1700000000 + int n" "db_writable example_world"
  by (simp_all add: example_world_def)

lemma example_found:
  "fst (get_or_none (ctx_adapter_key example_ctx) ''42'' example_world) = Some example_user"
  by (simp add: get_or_none_def example_world_facts example_user_facts example_ctx_facts)

lemma example_loaded:
  "fst (get_block_data (chat_key example_ctx) example_world) = BlockData_empty"
  by (simp add: example_world_facts)

lemma example_fresh: "get_block BlockData_empty (unique_id example_user) = None"
  by (simp add: get_block_def dict_get_def BlockData_empty_def)

text \<open>Permanent blocks allowed, no duration given: the stored record is permanent, without expiry.\<close>

theorem created_record_invariant_witness:
  "resolve_duration (default_config\<lparr>ALLOW_PERMANENT_BLOCK := True\<rparr>) None example_world
     = ((True, None, None), example_world) \<and>
   fst (get_or_none (ctx_adapter_key example_ctx) ''42'' example_world) = Some example_user \<and>
   fst (get_block_data (chat_key example_ctx) example_world) = BlockData_empty \<and>
   get_block BlockData_empty (unique_id example_user) = None \<and>
   ENABLE_FULL_BLOCK (default_config\<lparr>ALLOW_PERMANENT_BLOCK := True\<rparr>) \<and>
   store (snd (block_user_full (default_config\<lparr>ALLOW_PERMANENT_BLOCK := True\<rparr>) example_ctx
                 ''42'' ''spam'' None example_world)) ''group_1''
     = Some \<lparr>blocks = [(''onebot:42'',
         \<lparr>user_id = ''onebot:42'', username = ''alice'', block_type = FULL_BLOCK,
          reason = ''spam'', start_time = 1700000000, expire_time = None,
          is_permanent = True\<rparr>)]\<rparr>"
proof -
  have rd: "resolve_duration (default_config\<lparr>ALLOW_PERMANENT_BLOCK := True\<rparr>) None example_world
     = ((True, None, None), example_world)"
    by (simp add: resolve_duration_def absent_or_negative_def)
  have en: "ENABLE_FULL_BLOCK (default_config\<lparr>ALLOW_PERMANENT_BLOCK := True\<rparr>)"
    by (simp add: default_config_def)
  from created_record_invariant[OF rd example_found example_loaded example_fresh, of "''spam''"] en
  have "store (snd (block_user_full (default_config\<lparr>ALLOW_PERMANENT_BLOCK := True\<rparr>) example_ctx
                 ''42'' ''spam'' None example_world)) (chat_key example_ctx)
        = Some (add_block BlockData_empty
            (new_record example_user FULL_BLOCK ''spam'' (fst (time_time example_world)) None True))"
    by simp
  then show ?thesis using rd example_found example_loaded example_fresh en
    by (simp add: example_ctx_facts example_world_facts example_user_facts add_block_def
        BlockData_empty_def new_record_def)
qed

text \<open>
  C8. The \<^verbatim>\<open>is_permanent\<close> and \<^verbatim>\<open>expire_time\<close> of the record a block handler stores are
  those the duration block has set, which are: for an explicit non-negative duration, not
  permanent with \<^verbatim>\<open>calculate_expire_time(duration_seconds)\<close>; for an absent or negative
  duration, permanent without expiry when \<^verbatim>\<open>ALLOW_PERMANENT_BLOCK\<close> is set, and otherwise
  not permanent with \<^verbatim>\<open>calculate_expire_time(DEFAULT_BLOCK_SECONDS)\<close>.
\<close>

theorem duration_resolution:
  assumes "resolve_duration config dur w = ((p, e, d), w1)"
    and "fst (get_or_none (ctx_adapter_key ctx) ident w) = Some user"
    and "fst (get_block_data (chat_key ctx) w) = data"
    and "get_block data (unique_id user) = None"
  shows "(ENABLE_PREVENT_TRIGGER config \<longrightarrow>
      store (snd (block_user_prevent_trigger config ctx ident reason_text dur w)) (chat_key ctx)
        = Some (add_block data
            (new_record user PREVENT_TRIGGER reason_text (fst (time_time w1)) e p))) \<and>
    (ENABLE_FULL_BLOCK config \<longrightarrow>
      store (snd (block_user_full config ctx ident reason_text dur w)) (chat_key ctx)
        = Some (add_block data
            (new_record user FULL_BLOCK reason_text (fst (time_time w1)) e p))) \<and>
    (\<forall>s. dur = Some s \<and> 0 \<le> s \<longrightarrow>
       \<not> p \<and> e = fst (calculate_expire_time config (Some s) w)) \<and>
    ((dur = None \<or> (\<exists>s. dur = Some s \<and> s < 0)) \<and> ALLOW_PERMANENT_BLOCK config \<longrightarrow>
       p \<and> e = None) \<and>
    ((dur = None \<or> (\<exists>s. dur = Some s \<and> s < 0)) \<and> \<not> ALLOW_PERMANENT_BLOCK config \<longrightarrow>
       \<not> p \<and> e = fst (calculate_expire_time config (Some (DEFAULT_BLOCK_SECONDS config)) w))"
proof (intro conjI allI impI)
  assume "ENABLE_PREVENT_TRIGGER config"
  from block_user_prevent_trigger_store[OF this assms, of reason_text]
  show "store (snd (block_user_prevent_trigger config ctx ident reason_text dur w)) (chat_key ctx)
        = Some (add_block data
            (new_record user PREVENT_TRIGGER reason_text (fst (time_time w1)) e p))"
    by simp
next
  assume "ENABLE_FULL_BLOCK config"
  from block_user_full_store[OF this assms, of reason_text]
  show "store (snd (block_user_full config ctx ident reason_text dur w)) (chat_key ctx)
        = Some (add_block data
            (new_record user FULL_BLOCK reason_text (fst (time_time w1)) e p))"
    by simp
next
  fix s assume a: "dur = Some s \<and> 0 \<le> s"
  then have "resolve_duration config dur w
      = ((False, fst (calculate_expire_time config (Some s) w), Some s),
         snd (calculate_expire_time config (Some s) w))"
    using resolve_duration_explicit[of s config w] by simp
  with assms(1)
  show "\<not> p" and "e = fst (calculate_expire_time config (Some s) w)" by auto
next
  assume a: "(dur = None \<or> (\<exists>s. dur = Some s \<and> s < 0)) \<and> ALLOW_PERMANENT_BLOCK config"
  then have "resolve_duration config dur w = ((True, None, None), w)"
    using resolve_duration_permanent[of dur config w] by blast
  with assms(1) show "p" and "e = None" by auto
next
  assume a: "(dur = None \<or> (\<exists>s. dur = Some s \<and> s < 0)) \<and> \<not> ALLOW_PERMANENT_BLOCK config"
  then have "resolve_duration config dur w
     = ((False, fst (calculate_expire_time config (Some (DEFAULT_BLOCK_SECONDS config)) w),
         Some (DEFAULT_BLOCK_SECONDS config)),
        snd (calculate_expire_time config (Some (DEFAULT_BLOCK_SECONDS config)) w))"
    using resolve_duration_default[of dur config w] by blast
  with assms(1)
  show "\<not> p" and "e = fst (calculate_expire_time config (Some (DEFAULT_BLOCK_SECONDS config)) w)"
    by auto
qed

text \<open>
  The spec's scenario 2: permanent blocks not allowed and no duration given; the stored
  record is not permanent and expires \<^verbatim>\<open>DEFAULT_BLOCK_SECONDS\<close> after the clock value read.
\<close>

theorem duration_resolution_witness:
  "resolve_duration default_config None example_world
     = ((False, Some 1700086400, Some 86400), snd (time_time example_world)) \<and>
   fst (get_or_none (ctx_adapter_key example_ctx) ''42'' example_world) = Some example_user \<and>
   fst (get_block_data (chat_key example_ctx) example_world) = BlockData_empty \<and>
   get_block BlockData_empty (unique_id example_user) = None \<and>
   ENABLE_PREVENT_TRIGGER default_config \<and> \<not> ALLOW_PERMANENT_BLOCK default_config \<and>
   fst (calculate_expire_time default_config (Some (DEFAULT_BLOCK_SECONDS default_config))
          example_world) = Some 1700086400 \<and>
   store (snd (block_user_prevent_trigger default_config example_ctx ''42'' ''spam'' None
                 example_world)) ''group_1''
     = Some \<lparr>blocks = [(''onebot:42'',
         \<lparr>user_id = ''onebot:42'', username = ''alice'', block_type = PREVENT_TRIGGER,
          reason = ''spam'', start_time = 1700000001, expire_time = Some 1700086400,
          is_permanent = False\<rparr>)]\<rparr>"
proof -
  have rd: "resolve_duration default_config None example_world
     = ((False, Some 1700086400, Some 86400), snd (time_time example_world))"
    by (simp add: resolve_duration_def absent_or_negative_def calculate_expire_time_def
        default_config_def time_time_def example_world_facts)
  have en: "ENABLE_PREVENT_TRIGGER default_config" "\<not> ALLOW_PERMANENT_BLOCK default_config"
    by (simp_all add: default_config_def)
  note t = duration_resolution[OF rd example_found example_loaded example_fresh, of "''spam''"]
  from t en
  have s: "store (snd (block_user_prevent_trigger default_config example_ctx ''42'' ''spam'' None
                 example_world)) (chat_key example_ctx)
        = Some (add_block BlockData_empty
            (new_record example_user PREVENT_TRIGGER ''spam''
               (fst (time_time (snd (time_time example_world)))) (Some 1700086400) False))"
    by simp
  from t en
  have c: "Some 1700086400 = fst (calculate_expire_time default_config
      (Some (DEFAULT_BLOCK_SECONDS default_config)) example_world)"
    by simp
  from s c show ?thesis using rd example_found example_loaded example_fresh en
    by (simp add: example_ctx_facts example_world_facts example_user_facts add_block_def
        BlockData_empty_def new_record_def)
qed

section \<open>A failing system effect\<close>

lemma apply_block_to_system_readonly:
  "\<not> db_writable w \<Longrightarrow> fst (apply_block_to_system uid bt e w) = False"
proof -
  assume ro: "\<not> db_writable w"
  obtain user w1 where g: "get_user_by_unique_id uid w = (user, w1)"
    by (cases "get_user_by_unique_id uid w")
  with get_user_by_unique_id_fields(3)[of uid w] ro have "\<not> db_writable w1" by simp
  then have "\<And>u. fst (save u w1) = Inl DBError" by (simp add: save_def)
  then have "\<And>u r w2. save u w1 = (r, w2) \<Longrightarrow> r = Inl DBError" by (metis fst_conv)
  with g show ?thesis
    by (auto simp: apply_block_to_system_def Let_def split: prod.splits option.splits sum.splits)
qed

lemma remove_block_from_system_readonly:
  "\<not> db_writable w \<Longrightarrow> fst (remove_block_from_system uid bt w) = False"
proof -
  assume ro: "\<not> db_writable w"
  obtain user w1 where g: "get_user_by_unique_id uid w = (user, w1)"
    by (cases "get_user_by_unique_id uid w")
  with get_user_by_unique_id_fields(3)[of uid w] ro have "\<not> db_writable w1" by simp
  then have "\<And>u. fst (save u w1) = Inl DBError" by (simp add: save_def)
  then have "\<And>u r w2. save u w1 = (r, w2) \<Longrightarrow> r = Inl DBError" by (metis fst_conv)
  with g show ?thesis
    by (auto simp: remove_block_from_system_def Let_def split: prod.splits option.splits sum.splits)
qed

text \<open>
  C7. A block handler that creates a record writes the collection with the new record to
  the store and only then calls \<^verbatim>\<open>apply_block_to_system\<close>: \<open>w5\<close>, the state in which
  \<^verbatim>\<open>apply\<close> is called, already holds the new collection, and the calls of the invocation
  are the user lookup, the read of the store, the write of the store, and then the calls
  of \<^verbatim>\<open>apply\<close>, none of which writes the store. So whenever \<^verbatim>\<open>apply\<close> returns \<^verbatim>\<open>False\<close>
  the handler returns the failure text and the store still holds the new record.
\<close>

theorem block_persists_before_apply:
  assumes "resolve_duration config dur w = ((p, e, d), w1)"
    and "fst (get_or_none (ctx_adapter_key ctx) ident w) = Some user"
    and "fst (get_block_data (chat_key ctx) w) = data"
    and "get_block data (unique_id user) = None"
    and "w5 = save_block_data (chat_key ctx)
           (add_block data (new_record user bt reason_text (fst (time_time w1)) e p))
           (snd (time_time (snd (get_block_data (chat_key ctx)
                  (snd (get_or_none (ctx_adapter_key ctx) ident w1))))))"
    and "apply_block_to_system (unique_id user) bt e w5 = (False, w6)"
  shows "store w5 (chat_key ctx)
      = Some (add_block data (new_record user bt reason_text (fst (time_time w1)) e p)) \<and>
    calls_since w w6
      = [Get_or_none (ctx_adapter_key ctx) ident, Store_get (chat_key ctx),
         Store_set (chat_key ctx)
           (add_block data (new_record user bt reason_text (fst (time_time w1)) e p))]
        @ calls_since w5 w6 \<and>
    (\<forall>ev \<in> set (calls_since w5 w6). \<not> is_store_set ev) \<and>
    (bt = PREVENT_TRIGGER \<and> ENABLE_PREVENT_TRIGGER config \<longrightarrow>
       block_user_prevent_trigger config ctx ident reason_text dur w
         = (Block_failed (db_username user), w6)) \<and>
    (bt = FULL_BLOCK \<and> ENABLE_FULL_BLOCK config \<longrightarrow>
       block_user_full config ctx ident reason_text dur w
         = (Block_failed (db_username user), w6)) \<and>
    store w6 (chat_key ctx)
      = Some (add_block data (new_record user bt reason_text (fst (time_time w1)) e p)) \<and>
    get_block (add_block data (new_record user bt reason_text (fst (time_time w1)) e p))
        (unique_id user)
      = Some (new_record user bt reason_text (fst (time_time w1)) e p)"
proof -
  let ?r = "new_record user bt reason_text (fst (time_time w1)) e p"
  from assms(1) have f: "trace w1 = trace w"
    using resolve_duration_fields[of config dur w] by simp
  have t5: "trace w5 = trace w @ [Get_or_none (ctx_adapter_key ctx) ident,
      Store_get (chat_key ctx), Store_set (chat_key ctx) (add_block data ?r)]"
    by (simp add: assms(5) f)
  obtain evs where evs: "trace w6 = trace w5 @ evs" "\<forall>ev \<in> set evs. \<not> is_store_set ev"
    using apply_block_to_system_trace[of "unique_id user" bt e w5] assms(6) by auto
  have c56: "calls_since w5 w6 = evs" using evs(1) by simp
  have s5: "store w5 (chat_key ctx) = Some (add_block data ?r)" by (simp add: assms(5))
  have s6: "store w6 = store w5"
    using apply_block_to_system_store[of "unique_id user" bt e w5] assms(6) by simp
  have w5': "w5 = save_block_data (chat_key ctx) (add_block data ?r)
      (snd (time_time (emit (Store_get (chat_key ctx))
         (emit (Get_or_none (ctx_adapter_key ctx) ident) w1))))"
    by (simp add: assms(5))
  have st: "fst (time_time (emit (Store_get (chat_key ctx))
         (emit (Get_or_none (ctx_adapter_key ctx) ident) w1))) = fst (time_time w1)"
    by simp
  show ?thesis
  proof (intro conjI impI)
    show "store w5 (chat_key ctx) = Some (add_block data ?r)" by (rule s5)
    show "calls_since w w6
      = [Get_or_none (ctx_adapter_key ctx) ident, Store_get (chat_key ctx),
         Store_set (chat_key ctx) (add_block data ?r)] @ calls_since w5 w6"
      by (simp add: c56 calls_since_def evs(1) t5)
    show "\<forall>ev \<in> set (calls_since w5 w6). \<not> is_store_set ev" using evs(2) c56 by simp
    show "store w6 (chat_key ctx) = Some (add_block data ?r)" using s5 s6 by simp
    show "get_block (add_block data ?r) (unique_id user) = Some ?r"
      using get_block_add_block[of data ?r] by simp
  next
    assume a: "bt = PREVENT_TRIGGER \<and> ENABLE_PREVENT_TRIGGER config"
    then have en: "ENABLE_PREVENT_TRIGGER config" and bt: "bt = PREVENT_TRIGGER" by simp_all
    from assms(6) w5' bt
    have ap: "apply_block_to_system (unique_id user) PREVENT_TRIGGER e
        (save_block_data (chat_key ctx)
           (add_block data (new_record user PREVENT_TRIGGER reason_text (fst (time_time w1)) e p))
           (snd (time_time (emit (Store_get (chat_key ctx))
              (emit (Get_or_none (ctx_adapter_key ctx) ident) w1))))) = (False, w6)"
      by simp
    show "block_user_prevent_trigger config ctx ident reason_text dur w
         = (Block_failed (db_username user), w6)"
      using block_user_prevent_trigger_steps[OF en assms(1-3), of reason_text] assms(4) ap st
      by (simp add: Let_def new_record_def)
  next
    assume a: "bt = FULL_BLOCK \<and> ENABLE_FULL_BLOCK config"
    then have en: "ENABLE_FULL_BLOCK config" and bt: "bt = FULL_BLOCK" by simp_all
    from assms(6) w5' bt
    have ap: "apply_block_to_system (unique_id user) FULL_BLOCK e
        (save_block_data (chat_key ctx)
           (add_block data (new_record user FULL_BLOCK reason_text (fst (time_time w1)) e p))
           (snd (time_time (emit (Store_get (chat_key ctx))
              (emit (Get_or_none (ctx_adapter_key ctx) ident) w1))))) = (False, w6)"
      by simp
    show "block_user_full config ctx ident reason_text dur w
         = (Block_failed (db_username user), w6)"
      using block_user_full_steps[OF en assms(1-3), of reason_text] assms(4) ap st
      by (simp add: Let_def new_record_def)
  qed
qed


lemma readonly_world_facts:
  "users readonly_world = [example_user]" "store readonly_world ck = None"
  "trace readonly_world = []" "reads readonly_world = 0"
  "clock readonly_world n = 1700000000 + int n" "\<not> db_writable readonly_world"
  by (simp_all add: readonly_world_def example_world_def)

text \<open>
  The database refuses the save of the user entity: the handler reports the failure, and
  the store holds the new record all the same.
\<close>

theorem block_persists_before_apply_witness:
  "resolve_duration default_config (Some 3600) readonly_world
     = ((False, Some 1700003600, Some 3600), snd (time_time readonly_world)) \<and>
   fst (get_or_none (ctx_adapter_key example_ctx) ''42'' readonly_world) = Some example_user \<and>
   fst (get_block_data (chat_key example_ctx) readonly_world) = BlockData_empty \<and>
   get_block BlockData_empty (unique_id example_user) = None \<and>
   ENABLE_PREVENT_TRIGGER default_config \<and>
   \<not> db_writable readonly_world \<and>
   fst (block_user_prevent_trigger default_config example_ctx ''42'' ''spam'' (Some 3600)
          readonly_world) = Block_failed ''alice'' \<and>
   store (snd (block_user_prevent_trigger default_config example_ctx ''42'' ''spam'' (Some 3600)
                 readonly_world)) ''group_1''
     = Some \<lparr>blocks = [(''onebot:42'',
         \<lparr>user_id = ''onebot:42'', username = ''alice'', block_type = PREVENT_TRIGGER,
          reason = ''spam'', start_time = 1700000001, expire_time = Some 1700003600,
          is_permanent = False\<rparr>)]\<rparr>"
proof -
  have rd: "resolve_duration default_config (Some 3600) readonly_world
     = ((False, Some 1700003600, Some 3600), snd (time_time readonly_world))"
    by (simp add: resolve_duration_def absent_or_negative_def calculate_expire_time_def
        default_config_def time_time_def readonly_world_facts)
  have found: "fst (get_or_none (ctx_adapter_key example_ctx) ''42'' readonly_world)
      = Some example_user"
    by (simp add: get_or_none_def readonly_world_facts example_user_facts example_ctx_facts)
  have loaded: "fst (get_block_data (chat_key example_ctx) readonly_world) = BlockData_empty"
    by (simp add: readonly_world_facts)
  have en: "ENABLE_PREVENT_TRIGGER default_config" by (simp add: default_config_def)
  define w5 where "w5 = save_block_data (chat_key example_ctx)
           (add_block BlockData_empty
              (new_record example_user PREVENT_TRIGGER ''spam''
                 (fst (time_time (snd (time_time readonly_world)))) (Some 1700003600) False))
           (snd (time_time (snd (get_block_data (chat_key example_ctx)
                  (snd (get_or_none (ctx_adapter_key example_ctx) ''42''
                          (snd (time_time readonly_world))))))))"
  have "\<not> db_writable w5" by (simp add: w5_def readonly_world_facts)
  then have "fst (apply_block_to_system (unique_id example_user) PREVENT_TRIGGER
      (Some 1700003600) w5) = False"
    by (rule apply_block_to_system_readonly)
  then have ap: "apply_block_to_system (unique_id example_user) PREVENT_TRIGGER
      (Some 1700003600) w5
      = (False, snd (apply_block_to_system (unique_id example_user) PREVENT_TRIGGER
           (Some 1700003600) w5))"
    by (metis prod.collapse)
  note t = block_persists_before_apply[OF rd found loaded example_fresh w5_def ap]
  from t en have r: "block_user_prevent_trigger default_config example_ctx ''42'' ''spam''
      (Some 3600) readonly_world
      = (Block_failed (db_username example_user),
         snd (apply_block_to_system (unique_id example_user) PREVENT_TRIGGER
           (Some 1700003600) w5))"
    by simp
  from t have s: "store (snd (apply_block_to_system (unique_id example_user) PREVENT_TRIGGER
           (Some 1700003600) w5)) (chat_key example_ctx)
      = Some (add_block BlockData_empty
              (new_record example_user PREVENT_TRIGGER ''spam''
                 (fst (time_time (snd (time_time readonly_world)))) (Some 1700003600) False))"
    by simp
  from r s show ?thesis using rd found loaded example_fresh en
    by (simp add: example_ctx_facts readonly_world_facts
        example_user_facts add_block_def BlockData_empty_def new_record_def)
qed

section \<open>Unblocking\<close>

lemma remove_block_from_system_trace:
  "\<exists>evs. trace (snd (remove_block_from_system uid bt w)) = trace w @ evs \<and>
     (\<forall>e \<in> set evs. \<not> is_store_set e)"
proof -
  obtain evs where evs: "trace (snd (get_user_by_unique_id uid w)) = trace w @ evs"
    "\<forall>e \<in> set evs. \<not> is_store_set e \<and> \<not> is_user_save e"
    using get_user_by_unique_id_trace by blast
  obtain user w1 where g: "get_user_by_unique_id uid w = (user, w1)"
    by (cases "get_user_by_unique_id uid w")
  with evs have t1: "trace w1 = trace w @ evs" by simp
  show ?thesis
  proof (cases user)
    case None
    with g t1 evs show ?thesis by (auto simp: remove_block_from_system_def)
  next
    case (Some u)
    let ?u' = "if bt = PREVENT_TRIGGER then u\<lparr>prevent_trigger_until := None\<rparr>
               else u\<lparr>ban_until := None\<rparr>"
    have "trace (snd (remove_block_from_system uid bt w)) = trace w @ (evs @ [User_save ?u'])"
      using g Some t1
      by (cases "save ?u' w1")
        (auto simp: remove_block_from_system_def Let_def save_def split: sum.splits if_splits)
    moreover have "\<forall>e \<in> set (evs @ [User_save ?u']). \<not> is_store_set e" using evs by auto
    ultimately show ?thesis by blast
  qed
qed

lemma dict_get_dict_remove: "dict_get (dict_remove k d) k = None"
  by (induction d) (auto simp: dict_get_def dict_remove_def)

lemma get_block_remove_block: "get_block (snd (remove_block data uid)) uid = None"
proof (cases "dict_contains uid (blocks data)")
  case True
  then show ?thesis by (simp add: get_block_def remove_block_def dict_get_dict_remove)
next
  case False
  then show ?thesis
    by (simp add: get_block_def remove_block_def dict_get_def dict_contains_def
        map_of_eq_None_iff)
qed

lemma unblock_user_steps:
  assumes "fst (get_or_none (ctx_adapter_key ctx) ident w) = Some user"
    and "fst (get_block_data (chat_key ctx) w) = data"
  shows "unblock_user ctx ident w =
    (let w2 = snd (get_block_data (chat_key ctx) (snd (get_or_none (ctx_adapter_key ctx) ident w)))
     in case get_block data (unique_id user) of
          None \<Rightarrow> (Not_blocked (db_username user), w2)
        | Some block_record \<Rightarrow>
            (case remove_block_from_system (unique_id user) (block_type block_record) w2 of
               (success, w3) \<Rightarrow>
                 if \<not> success then (Unblock_failed (db_username user), w3)
                 else (Unblock_ok (db_username user),
                       emit Logger_info
                         (save_block_data (chat_key ctx)
                            (snd (remove_block data (unique_id user))) w3))))"
proof -
  have g: "get_or_none (ctx_adapter_key ctx) ident w
      = (Some user, emit (Get_or_none (ctx_adapter_key ctx) ident) w)"
    using assms(1) by (simp add: get_or_none_def)
  have b: "get_block_data (chat_key ctx) (emit (Get_or_none (ctx_adapter_key ctx) ident) w)
      = (data, emit (Store_get (chat_key ctx)) (emit (Get_or_none (ctx_adapter_key ctx) ident) w))"
    using assms(2) by (simp add: get_block_data_def split: option.splits)
  show ?thesis
    by (simp add: unblock_user_def g b Let_def split: prod.splits option.splits)
qed

text \<open>
  C6. The unblock handler, for a user who resolves; \<open>w2\<close> is the state after the lookup and
  the load, in which the store is as before.
  No record for the user: the not-blocked text, and the only host calls are the lookup and
  the read of the store.
  A record, and \<^verbatim>\<open>remove_block_from_system\<close>, called in \<open>w2\<close>, returns \<^verbatim>\<open>False\<close>: the failure
  text, the store as before, no write of the store among the calls, and a reload gives the
  same collection.
  A record, and \<^verbatim>\<open>remove\<close> returns \<^verbatim>\<open>True\<close>: the success text; the calls are the lookup, the
  read, the calls of \<^verbatim>\<open>remove\<close> (none writes the store), and only then the write of the
  collection without the user's record.
\<close>

theorem unblock_removes_system_effect_first:
  assumes "fst (get_or_none (ctx_adapter_key ctx) ident w) = Some user"
    and "fst (get_block_data (chat_key ctx) w) = data"
    and "w2 = snd (get_block_data (chat_key ctx) (snd (get_or_none (ctx_adapter_key ctx) ident w)))"
  shows "store w2 = store w \<and>
    (get_block data (unique_id user) = None \<longrightarrow>
       unblock_user ctx ident w = (Not_blocked (db_username user), w2) \<and>
       calls_since w w2 = [Get_or_none (ctx_adapter_key ctx) ident, Store_get (chat_key ctx)]) \<and>
    (\<forall>r w3. get_block data (unique_id user) = Some r \<and>
        remove_block_from_system (unique_id user) (block_type r) w2 = (False, w3) \<longrightarrow>
       unblock_user ctx ident w = (Unblock_failed (db_username user), w3) \<and>
       store w3 = store w \<and>
       (\<forall>ev \<in> set (calls_since w w3). \<not> is_store_set ev) \<and>
       fst (get_block_data (chat_key ctx) w3) = data) \<and>
    (\<forall>r w3. get_block data (unique_id user) = Some r \<and>
        remove_block_from_system (unique_id user) (block_type r) w2 = (True, w3) \<longrightarrow>
       fst (unblock_user ctx ident w) = Unblock_ok (db_username user) \<and>
       store (snd (unblock_user ctx ident w))
         = (store w)(chat_key ctx \<mapsto> snd (remove_block data (unique_id user))) \<and>
       get_block (snd (remove_block data (unique_id user))) (unique_id user) = None \<and>
       calls_since w (snd (unblock_user ctx ident w))
         = [Get_or_none (ctx_adapter_key ctx) ident, Store_get (chat_key ctx)]
           @ calls_since w2 w3
           @ [Store_set (chat_key ctx) (snd (remove_block data (unique_id user))), Logger_info] \<and>
       (\<forall>ev \<in> set (calls_since w2 w3). \<not> is_store_set ev))"
proof (intro conjI allI impI)
  have t2: "trace w2 = trace w @ [Get_or_none (ctx_adapter_key ctx) ident, Store_get (chat_key ctx)]"
    by (simp add: assms(3))
  show s2: "store w2 = store w" by (simp add: assms(3))
  note steps = unblock_user_steps[OF assms(1,2), folded assms(3)]
  {
    assume n: "get_block data (unique_id user) = None"
    show "unblock_user ctx ident w = (Not_blocked (db_username user), w2)"
      using steps n by (simp add: Let_def)
    show "calls_since w w2 = [Get_or_none (ctx_adapter_key ctx) ident, Store_get (chat_key ctx)]"
      using t2 by simp
  }
  {
    fix r w3
    assume a: "get_block data (unique_id user) = Some r \<and>
        remove_block_from_system (unique_id user) (block_type r) w2 = (False, w3)"
    obtain evs where evs: "trace w3 = trace w2 @ evs" "\<forall>ev \<in> set evs. \<not> is_store_set ev"
      using remove_block_from_system_trace[of "unique_id user" "block_type r" w2] a by auto
    show "unblock_user ctx ident w = (Unblock_failed (db_username user), w3)"
      using steps a by (simp add: Let_def)
    show s3: "store w3 = store w"
      using remove_block_from_system_store[of "unique_id user" "block_type r" w2] a s2 by simp
    have "calls_since w w3
        = [Get_or_none (ctx_adapter_key ctx) ident, Store_get (chat_key ctx)] @ evs"
      using evs(1) t2 by simp
    then show "\<forall>ev \<in> set (calls_since w w3). \<not> is_store_set ev" using evs(2) by simp
    show "fst (get_block_data (chat_key ctx) w3) = data" using assms(2) s3 by simp
  }
  {
    fix r w3
    assume a: "get_block data (unique_id user) = Some r \<and>
        remove_block_from_system (unique_id user) (block_type r) w2 = (True, w3)"
    obtain evs where evs: "trace w3 = trace w2 @ evs" "\<forall>ev \<in> set evs. \<not> is_store_set ev"
      using remove_block_from_system_trace[of "unique_id user" "block_type r" w2] a by auto
    have s3: "store w3 = store w"
      using remove_block_from_system_store[of "unique_id user" "block_type r" w2] a s2 by simp
    have u: "unblock_user ctx ident w = (Unblock_ok (db_username user),
        emit Logger_info
          (save_block_data (chat_key ctx) (snd (remove_block data (unique_id user))) w3))"
      using steps a by (simp add: Let_def)
    show "fst (unblock_user ctx ident w) = Unblock_ok (db_username user)" by (simp add: u)
    show "store (snd (unblock_user ctx ident w))
         = (store w)(chat_key ctx \<mapsto> snd (remove_block data (unique_id user)))"
      by (simp add: u s3)
    show "get_block (snd (remove_block data (unique_id user))) (unique_id user) = None"
      by (rule get_block_remove_block)
    have c23: "calls_since w2 w3 = evs" using evs(1) by simp
    show "calls_since w (snd (unblock_user ctx ident w))
         = [Get_or_none (ctx_adapter_key ctx) ident, Store_get (chat_key ctx)]
           @ calls_since w2 w3
           @ [Store_set (chat_key ctx) (snd (remove_block data (unique_id user))), Logger_info]"
      by (simp add: u c23 calls_since_def evs(1) t2)
    show "\<forall>ev \<in> set (calls_since w2 w3). \<not> is_store_set ev" using evs(2) c23 by simp
  }
qed


lemma get_user_by_unique_id_fst:
  "fst (get_user_by_unique_id uid w) =
     (case split_once uid of
        None \<Rightarrow> None
      | Some (ak, pid) \<Rightarrow> find (\<lambda>u. adapter_key u = ak \<and> platform_userid u = pid) (users w))"
  by (simp add: get_user_by_unique_id_def get_by_union_id_def split: option.splits prod.splits)

lemma remove_block_from_system_success:
  assumes "fst (get_user_by_unique_id uid w) = Some user" "db_writable w"
  shows "fst (remove_block_from_system uid bt w)"
proof -
  obtain w1 where g: "get_user_by_unique_id uid w = (Some user, w1)"
    using assms(1) by (cases "get_user_by_unique_id uid w") simp
  with get_user_by_unique_id_fields(3)[of uid w] assms(2) have "db_writable w1" by simp
  with g show ?thesis by (simp add: remove_block_from_system_def Let_def save_def)
qed

lemma blocked_readonly_world_facts:
  "users blocked_readonly_world = [example_user]"
  "store blocked_readonly_world ''group_1''
     = Some \<lparr>blocks = [(''onebot:42'', example_record)]\<rparr>"
  "\<not> db_writable blocked_readonly_world"
  by (simp_all add: blocked_readonly_world_def blocked_world_def example_world_def)

text \<open>
  The three cases: a user without a record; a blocked user while the database refuses
  writes; a blocked user while it takes them.
\<close>

theorem unblock_removes_system_effect_first_witness:
  "fst (get_or_none (ctx_adapter_key example_ctx) ''42'' example_world) = Some example_user \<and>
   get_block (fst (get_block_data (chat_key example_ctx) example_world)) (unique_id example_user)
     = None \<and>
   fst (unblock_user example_ctx ''42'' example_world) = Not_blocked ''alice'' \<and>
   calls_since example_world (snd (unblock_user example_ctx ''42'' example_world))
     = [Get_or_none ''onebot'' ''42'', Store_get ''group_1''] \<and>
   get_block (fst (get_block_data (chat_key example_ctx) blocked_readonly_world))
       (unique_id example_user) = Some example_record \<and>
   fst (unblock_user example_ctx ''42'' blocked_readonly_world) = Unblock_failed ''alice'' \<and>
   store (snd (unblock_user example_ctx ''42'' blocked_readonly_world)) ''group_1''
     = Some \<lparr>blocks = [(''onebot:42'', example_record)]\<rparr> \<and>
   fst (unblock_user example_ctx ''42'' blocked_world) = Unblock_ok ''alice'' \<and>
   store (snd (unblock_user example_ctx ''42'' blocked_world)) ''group_1''
     = Some \<lparr>blocks = []\<rparr>"
proof -
  let ?data = "\<lparr>blocks = [(''onebot:42'', example_record)]\<rparr>"
  have rec: "get_block ?data (unique_id example_user) = Some example_record"
    by (simp add: get_block_def dict_get_def example_user_facts)
  have removed: "snd (remove_block ?data ''onebot:42'') = \<lparr>blocks = []\<rparr>"
    by (simp add: remove_block_def dict_contains_def dict_remove_def)
  define a2 where "a2 = snd (get_block_data (chat_key example_ctx)
      (snd (get_or_none (ctx_adapter_key example_ctx) ''42'' example_world)))"
  note ta = unblock_removes_system_effect_first[OF example_found example_loaded a2_def]
  from ta example_fresh
  have a: "unblock_user example_ctx ''42'' example_world = (Not_blocked (db_username example_user), a2)"
    "calls_since example_world a2
       = [Get_or_none (ctx_adapter_key example_ctx) ''42'', Store_get (chat_key example_ctx)]"
    by simp_all
  have foundb: "fst (get_or_none (ctx_adapter_key example_ctx) ''42'' blocked_readonly_world)
      = Some example_user"
    by (simp add: get_or_none_def blocked_readonly_world_facts example_user_facts example_ctx_facts)
  have loadedb: "fst (get_block_data (chat_key example_ctx) blocked_readonly_world) = ?data"
    by (simp add: blocked_readonly_world_facts example_ctx_facts)
  define b2 where "b2 = snd (get_block_data (chat_key example_ctx)
      (snd (get_or_none (ctx_adapter_key example_ctx) ''42'' blocked_readonly_world)))"
  have "\<not> db_writable b2" by (simp add: b2_def blocked_readonly_world_facts)
  then have "fst (remove_block_from_system (unique_id example_user) (block_type example_record) b2)
      = False"
    by (rule remove_block_from_system_readonly)
  then have rb: "remove_block_from_system (unique_id example_user) (block_type example_record) b2
      = (False, snd (remove_block_from_system (unique_id example_user)
                       (block_type example_record) b2))"
    by (metis prod.collapse)
  note tb = unblock_removes_system_effect_first[OF foundb loadedb b2_def]
  from tb rec rb
  have b: "unblock_user example_ctx ''42'' blocked_readonly_world
      = (Unblock_failed (db_username example_user),
         snd (remove_block_from_system (unique_id example_user) (block_type example_record) b2))"
    "store (snd (remove_block_from_system (unique_id example_user) (block_type example_record) b2))
      = store blocked_readonly_world"
    by blast+
  have foundc: "fst (get_or_none (ctx_adapter_key example_ctx) ''42'' blocked_world)
      = Some example_user"
    by (simp add: get_or_none_def blocked_world_facts example_user_facts example_ctx_facts)
  have loadedc: "fst (get_block_data (chat_key example_ctx) blocked_world) = ?data"
    by (simp add: blocked_world_facts example_ctx_facts)
  define c2 where "c2 = snd (get_block_data (chat_key example_ctx)
      (snd (get_or_none (ctx_adapter_key example_ctx) ''42'' blocked_world)))"
  have "fst (get_user_by_unique_id (unique_id example_user) c2) = Some example_user"
    by (simp add: get_user_by_unique_id_fst c2_def blocked_world_facts example_user_facts
        split_once_example)
  moreover have "db_writable c2"
    by (simp add: c2_def blocked_world_def example_world_def)
  ultimately have "fst (remove_block_from_system (unique_id example_user)
      (block_type example_record) c2)"
    by (rule remove_block_from_system_success)
  then have rc: "remove_block_from_system (unique_id example_user) (block_type example_record) c2
      = (True, snd (remove_block_from_system (unique_id example_user)
                       (block_type example_record) c2))"
    by (metis (full_types) prod.collapse)
  note tc = unblock_removes_system_effect_first[OF foundc loadedc c2_def]
  from tc rec rc
  have c: "fst (unblock_user example_ctx ''42'' blocked_world) = Unblock_ok (db_username example_user)"
    "store (snd (unblock_user example_ctx ''42'' blocked_world))
      = (store blocked_world)(chat_key example_ctx \<mapsto>
          snd (remove_block ?data (unique_id example_user)))"
    by blast+
  show ?thesis
    using a b c example_found example_fresh rec
    by (simp add: example_loaded loadedb removed example_user_facts example_ctx_facts
        blocked_readonly_world_facts example_world_facts)
qed

section \<open>The prompt summary\<close>

lemma render_entries_length: "length (fst (render_entries rs w)) = length rs"
proof (induction rs arbitrary: w)
  case Nil
  then show ?case by simp
next
  case (Cons x rs)
  obtain uid r where x: "x = (uid, r)" by (cases x)
  obtain td w1 where h: "(if is_permanent r then (Infinity, w)
            else (case format_time_remaining (expire_time r) w of
                    (text, w') \<Rightarrow> (Remaining text, w'))) = (td, w1)"
    by (cases "if is_permanent r then (Infinity, w)
            else (case format_time_remaining (expire_time r) w of
                    (text, w') \<Rightarrow> (Remaining text, w'))")
  obtain es w2 where t: "render_entries rs w1 = (es, w2)" by (cases "render_entries rs w1")
  from Cons.IH[of w1] t have "length es = length rs" by simp
  with x h t show ?case by (simp add: Let_def)
qed

lemma render_entries_entries:
  "list_all2 (\<lambda>(uid, r) l. is_entry_for r l) rs (fst (render_entries rs w))"
proof (induction rs arbitrary: w)
  case Nil
  then show ?case by simp
next
  case (Cons x rs)
  obtain uid r where x: "x = (uid, r)" by (cases x)
  obtain td w1 where h: "(if is_permanent r then (Infinity, w)
            else (case format_time_remaining (expire_time r) w of
                    (text, w') \<Rightarrow> (Remaining text, w'))) = (td, w1)"
    by (cases "if is_permanent r then (Infinity, w)
            else (case format_time_remaining (expire_time r) w of
                    (text, w') \<Rightarrow> (Remaining text, w'))")
  have td: "case td of Infinity \<Rightarrow> is_permanent r | Remaining text \<Rightarrow> \<not> is_permanent r"
    using h by (cases "is_permanent r") (auto split: prod.splits)
  obtain es w2 where t: "render_entries rs w1 = (es, w2)" by (cases "render_entries rs w1")
  from Cons.IH[of w1] t have "list_all2 (\<lambda>(uid, r) l. is_entry_for r l) rs es" by simp
  with x h t td show ?case by (simp add: Let_def)
qed

lemma slice_to_take: "0 \<le> k \<Longrightarrow> slice_to k xs = take (nat k) xs"
  by (simp add: slice_to_def)

lemma render_summary_shape:
  assumes "active \<noteq> []" and "1 \<le> MAX_PROMPT_DISPLAY_COUNT config"
    and "k = nat (min (int (length active)) (MAX_PROMPT_DISPLAY_COUNT config))"
  shows "fst (render_summary config active w)
      = Header # fst (render_entries (take k active) w)
        @ (if int (length active) > MAX_PROMPT_DISPLAY_COUNT config
           then [More (int (length active) - MAX_PROMPT_DISPLAY_COUNT config)] else [])"
    and "int k = min (int (length active)) (MAX_PROMPT_DISPLAY_COUNT config)"
    and "length (take k active) = k"
proof -
  let ?n = "int (length active)"
  let ?m = "MAX_PROMPT_DISPLAY_COUNT config"
  from assms(1) have n1: "1 \<le> ?n" by (cases active) simp_all
  with assms(2) have d0: "0 \<le> min ?n ?m" by simp
  then show ik: "int k = min ?n ?m" using assms(3) by simp
  have sl: "slice_to (min ?n ?m) active = take k active"
    using d0 assms(3) by (simp add: slice_to_take)
  have gt: "(?n > min ?n ?m) = (?n > ?m)" by auto
  have df: "?n > ?m \<Longrightarrow> ?n - min ?n ?m = ?n - ?m" by simp
  show "fst (render_summary config active w)
      = Header # fst (render_entries (take k active) w)
        @ (if ?n > ?m then [More (?n - ?m)] else [])"
    by (cases "render_entries (take k active) w")
      (simp add: render_summary_def Let_def sl gt df)
  from ik show "length (take k active) = k" by simp
qed


lemma save_block_data_clock [simp]:
  "clock (save_block_data ck data w) = clock w" "reads (save_block_data ck data w) = reads w"
  by (simp_all add: save_block_data_def)

text \<open>
  C10. The prompt summary with the display flag on and \<^verbatim>\<open>MAX_PROMPT_DISPLAY_COUNT\<close> at
  least 1 (the bound its \<^verbatim>\<open>Field\<close> validates), when the cleanup returns and the active set
  computed after it, of size \<open>n\<close>, is not empty: the output is the heading, then the
  entries of the first \<open>min n MAX_PROMPT_DISPLAY_COUNT\<close> active records in order, each with
  the symbol of its block type, its display name, its reason and a remaining-time text
  or, for a permanent record, the infinity symbol; and then the line
  "\<open>n - MAX_PROMPT_DISPLAY_COUNT\<close> more" if and only if \<open>n\<close> exceeds
  \<^verbatim>\<open>MAX_PROMPT_DISPLAY_COUNT\<close>.
\<close>

theorem prompt_summary_truncates:
  assumes "SHOW_BLOCKED_USERS_IN_PROMPT config"
    and "1 \<le> MAX_PROMPT_DISPLAY_COUNT config"
    and "fst (get_block_data (chat_key ctx) w) = data"
    and "cleanup_expired data (fst (time_time w)) = Inr (c, data')"
    and "active = get_active_blocks data' (fst (time_time (snd (time_time w))))"
    and "active \<noteq> []"
    and "k = nat (min (int (length active)) (MAX_PROMPT_DISPLAY_COUNT config))"
    and "w4 = snd (time_time (save_block_data (chat_key ctx) data'
                  (snd (time_time (snd (get_block_data (chat_key ctx) w))))))"
  shows "fst (inject_blocked_users_prompt config ctx w)
      = Header # fst (render_entries (take k active) w4)
        @ (if int (length active) > MAX_PROMPT_DISPLAY_COUNT config
           then [More (int (length active) - MAX_PROMPT_DISPLAY_COUNT config)] else []) \<and>
    int k = min (int (length active)) (MAX_PROMPT_DISPLAY_COUNT config) \<and>
    length (fst (render_entries (take k active) w4)) = k \<and>
    list_all2 (\<lambda>(uid, r) l. is_entry_for r l) (take k active)
      (fst (render_entries (take k active) w4))"
proof -
  define w1 where "w1 = emit (Store_get (chat_key ctx)) w"
  define w2 where "w2 = snd (time_time w1)"
  have b: "get_block_data (chat_key ctx) w = (data, w1)"
    using assms(3) by (simp add: get_block_data_def w1_def split: option.splits)
  have t1: "time_time w1 = (clock w (reads w), w2)"
    by (simp add: prod_eq_iff w1_def w2_def)
  have cl: "cleanup_expired data (clock w (reads w)) = Inr (c, data')"
    using assms(4) by simp
  have t2: "time_time (save_block_data (chat_key ctx) data' w2) = (clock w (Suc (reads w)), w4)"
    by (simp add: assms(8) prod_eq_iff w1_def w2_def)
  have ac: "get_active_blocks data' (clock w (Suc (reads w))) = active"
    using assms(5) by simp
  have inj: "inject_blocked_users_prompt config ctx w = render_summary config active w4"
    using assms(1,6) by (simp add: inject_blocked_users_prompt_def b t1 cl t2 ac)
  note sh = render_summary_shape[OF assms(6) assms(2) assms(7)]
  show ?thesis
  proof (intro conjI)
    show "fst (inject_blocked_users_prompt config ctx w)
      = Header # fst (render_entries (take k active) w4)
        @ (if int (length active) > MAX_PROMPT_DISPLAY_COUNT config
           then [More (int (length active) - MAX_PROMPT_DISPLAY_COUNT config)] else [])"
      using sh(1)[of w4] by (simp only: inj)
    show "int k = min (int (length active)) (MAX_PROMPT_DISPLAY_COUNT config)" by (rule sh(2))
    show "length (fst (render_entries (take k active) w4)) = k"
      using render_entries_length[of "take k active" w4] sh(3) by simp
    show "list_all2 (\<lambda>(uid, r) l. is_entry_for r l) (take k active)
      (fst (render_entries (take k active) w4))"
      by (rule render_entries_entries)
  qed
qed

lemma crowded_world_facts:
  "store crowded_world ''group_1'' = Some \<lparr>blocks = crowd\<rparr>" "reads crowded_world = 0"
  "clock crowded_world n = 1700000000 + int n"
  by (simp_all add: crowded_world_def example_world_def)

lemma crowd_inv: "dict_inv crowd"
  by (simp add: dict_inv_def crowd_def)

text \<open>
  The spec's scenario 5: seven active records and a display count of 5 give the heading,
  five entries and the line "2 more".
\<close>

theorem prompt_summary_truncates_witness:
  "SHOW_BLOCKED_USERS_IN_PROMPT default_config \<and>
   1 \<le> MAX_PROMPT_DISPLAY_COUNT default_config \<and>
   fst (get_block_data (chat_key example_ctx) crowded_world) = \<lparr>blocks = crowd\<rparr> \<and>
   cleanup_expired \<lparr>blocks = crowd\<rparr> (fst (time_time crowded_world))
     = Inr (0, \<lparr>blocks = crowd\<rparr>) \<and>
   get_active_blocks \<lparr>blocks = crowd\<rparr> (fst (time_time (snd (time_time crowded_world))))
     = crowd \<and>
   length crowd = 7 \<and>
   fst (inject_blocked_users_prompt default_config example_ctx crowded_world)
     = [Header,
        Entry Sym_full_block ''u1'' (Remaining (Hours_minutes 2 0)) ''spam'',
        Entry Sym_prevent_trigger ''u2'' Infinity ''spam'',
        Entry Sym_full_block ''u3'' Infinity ''spam'',
        Entry Sym_full_block ''u4'' Infinity ''spam'',
        Entry Sym_prevent_trigger ''u5'' Infinity ''spam'',
        More 2]"
proof -
  have sh: "SHOW_BLOCKED_USERS_IN_PROMPT default_config"
    and mx: "1 \<le> MAX_PROMPT_DISPLAY_COUNT default_config"
    and m5: "MAX_PROMPT_DISPLAY_COUNT default_config = 5"
    by (simp_all add: default_config_def)
  have loaded: "fst (get_block_data (chat_key example_ctx) crowded_world) = \<lparr>blocks = crowd\<rparr>"
    by (simp add: crowded_world_facts example_ctx_facts)
  have cleaned: "cleanup_expired \<lparr>blocks = crowd\<rparr> (fst (time_time crowded_world))
     = Inr (0, \<lparr>blocks = crowd\<rparr>)"
    using cleanup_expired_filter[of "\<lparr>blocks = crowd\<rparr>" "fst (time_time crowded_world)"] crowd_inv
    by (simp add: crowd_def crowd_record_def expired_test_def truthy_def crowded_world_facts)
  have active: "crowd = get_active_blocks \<lparr>blocks = crowd\<rparr>
      (fst (time_time (snd (time_time crowded_world))))"
    using get_active_blocks_filter[of "\<lparr>blocks = crowd\<rparr>"
        "fst (time_time (snd (time_time crowded_world)))"] crowd_inv
    by (simp add: crowd_def crowd_record_def active_test_def truthy_def crowded_world_facts)
  have ne: "crowd \<noteq> []" and len: "length crowd = 7" by (simp_all add: crowd_def)
  have k: "5 = nat (min (int (length crowd)) (MAX_PROMPT_DISPLAY_COUNT default_config))"
    by (simp add: len m5)
  define w4 where "w4 = snd (time_time (save_block_data (chat_key example_ctx) \<lparr>blocks = crowd\<rparr>
                  (snd (time_time (snd (get_block_data (chat_key example_ctx) crowded_world))))))"
  have w4: "clock w4 (reads w4) = 1700000002"
    by (simp add: w4_def crowded_world_facts)
  have entries: "fst (render_entries (take 5 crowd) w4)
      = [Entry Sym_full_block ''u1'' (Remaining (Hours_minutes 2 0)) ''spam'',
         Entry Sym_prevent_trigger ''u2'' Infinity ''spam'',
         Entry Sym_full_block ''u3'' Infinity ''spam'',
         Entry Sym_full_block ''u4'' Infinity ''spam'',
         Entry Sym_prevent_trigger ''u5'' Infinity ''spam'']"
    by (simp add: crowd_def crowd_record_def format_time_remaining_def time_time_def Let_def w4)
  from prompt_summary_truncates[OF sh mx loaded cleaned active ne k w4_def]
  have "fst (inject_blocked_users_prompt default_config example_ctx crowded_world)
      = Header # fst (render_entries (take 5 crowd) w4)
        @ (if int (length crowd) > MAX_PROMPT_DISPLAY_COUNT default_config
           then [More (int (length crowd) - MAX_PROMPT_DISPLAY_COUNT default_config)] else [])"
    by blast
  then show ?thesis using sh mx loaded cleaned active[symmetric] len
    by (simp add: entries m5)
qed

end
